theory Spec2Isabelle
  imports Main "HOL-Library.Sublist"
begin

section \<open>Values of the program\<close>

text \<open>
  A \<open>datetime.timedelta\<close> is normalised by Python to days, seconds and microseconds;
  two of them are equal, and ordered, as their totals in microseconds are. The model is
  that total. \<open>timedelta_of\<close> is the constructor call
  \<open>timedelta(hours=h, minutes=m, seconds=s, microseconds=us)\<close>.
\<close>

type_synonym timedelta = int

definition timedelta_of :: "int \<Rightarrow> int \<Rightarrow> int \<Rightarrow> int \<Rightarrow> timedelta" where
  "timedelta_of h m s us = ((h * 60 + m) * 60 + s) * 1000000 + us"

text \<open>
  The exceptions that the modelled part of the program can raise.
  \<open>subprocess.CalledProcessError\<close> carries the \<open>returncode\<close> attribute it was given and
  the command.
\<close>

datatype exn =
    CalledProcessError "int option" "string list"
  | FileExistsError string
  | FileNotFoundError string
  | TypeError
  | KeyError string
  | AttributeError
  | ZeroDivisionError
  | ValueError
  | IndexError
  | OSError

section \<open>The timestamp parser\<close>

text \<open>
  \<open>re_ffmpeg_progress\<close> is the compiled pattern
  \<open>time=([0-9]{2}):([0-9]{2}):([0-9]{2}).([0-9]{2})\<close>. The classes \<open>[0-9]\<close> accept the ten
  ASCII digits; the dot before the last group is not escaped, so it accepts every
  character but the line feed. \<open>match_here\<close> matches the pattern at the start of a string
  and gives the four groups; \<open>re_search\<close> is \<open>Pattern.search\<close>: the leftmost position at
  which the pattern matches.
\<close>

definition is_digit :: "char \<Rightarrow> bool" where
  "is_digit c = (c \<in> set ''0123456789'')"

definition line_feed :: char where
  "line_feed = CHR 0x0A"

definition match_here :: "string \<Rightarrow> (string \<times> string \<times> string \<times> string) option" where
  "match_here s =
     (if 16 \<le> length s \<and> take 5 s = ''time=''
         \<and> is_digit (s ! 5) \<and> is_digit (s ! 6) \<and> s ! 7 = CHR '':''
         \<and> is_digit (s ! 8) \<and> is_digit (s ! 9) \<and> s ! 10 = CHR '':''
         \<and> is_digit (s ! 11) \<and> is_digit (s ! 12) \<and> s ! 13 \<noteq> line_feed
         \<and> is_digit (s ! 14) \<and> is_digit (s ! 15)
      then Some (take 2 (drop 5 s), take 2 (drop 8 s), take 2 (drop 11 s), take 2 (drop 14 s))
      else None)"

fun re_search :: "string \<Rightarrow> (string \<times> string \<times> string \<times> string) option" where
  "re_search [] = None"
| "re_search (c # cs) =
     (case match_here (c # cs) of Some g \<Rightarrow> Some g | None \<Rightarrow> re_search cs)"

text \<open>\<open>int_of_str\<close> is \<open>int(...)\<close> on a string of decimal digits.\<close>

definition digit_val :: "char \<Rightarrow> int" where
  "digit_val c = int (of_char c) - 48"

definition int_of_str :: "string \<Rightarrow> int" where
  "int_of_str s = foldl (\<lambda>a c. 10 * a + digit_val c) 0 s"

definition extract_ffmpeg_time :: "string \<Rightarrow> timedelta option" where
  "extract_ffmpeg_time line =
     (case re_search line of
        Some (h, m, s, c) \<Rightarrow>
          Some (timedelta_of (int_of_str h) (int_of_str m) (int_of_str s) (int_of_str c * 10000))
      | None \<Rightarrow> None)"

section \<open>Child processes\<close>

text \<open>
  A child process, as the parent sees it through \<open>subprocess.Popen\<close>. \<open>returncode\<close> is
  the attribute of that name: \<open>None\<close> until a poll or a wait has seen the child exit.
  The rest is the script of what the child will do: the lines (already decoded) that
  \<open>proc.stderr.readline()\<close> will give, one per call, and the empty string at the end of
  the stream; what each coming \<open>proc.poll()\<close> will see (\<open>None\<close> while the child runs);
  the exit code seen once these are used up, so that every child exits in the end; an
  exception that surfaces inside \<open>proc.wait()\<close>, if any; the files the child creates.
\<close>

record proc =
  returncode :: "int option"
  stderr :: "string list"
  polls :: "int option list"
  final_rc :: int
  wait_error :: "exn option"
  creates :: "string list"

definition readline :: "proc \<Rightarrow> string \<times> proc" where
  "readline p = (case stderr p of [] \<Rightarrow> ([], p) | l # ls \<Rightarrow> (l, p\<lparr>stderr := ls\<rparr>))"

definition poll :: "proc \<Rightarrow> proc" where
  "poll p =
     (if returncode p \<noteq> None then p
      else (case polls p of
              [] \<Rightarrow> p\<lparr>returncode := Some (final_rc p)\<rparr>
            | r # rs \<Rightarrow> p\<lparr>returncode := r, polls := rs\<rparr>))"

text \<open>The number of polls after which the child has certainly been seen to exit.\<close>

definition proc_fuel :: "proc \<Rightarrow> nat" where
  "proc_fuel p = length (polls p) + (if returncode p = None then 1 else 0)"

text \<open>
  \<open>proc.wait()\<close> blocks until the child has exited: \<open>wait_for\<close> polls until then.
\<close>

function wait_for :: "proc \<Rightarrow> proc" where
  "wait_for p = (if returncode p \<noteq> None then p else wait_for (poll p))"
  by pat_completeness auto
termination
  by (relation "measure proc_fuel")
     (auto simp: proc_fuel_def poll_def split: list.splits)

declare wait_for.simps [simp del]

definition wait :: "proc \<Rightarrow> exn + proc" where
  "wait p = (case wait_error p of Some e \<Rightarrow> Inl e | None \<Rightarrow> Inr (wait_for p))"

text \<open>
  \<open>ffmpeg_capture_duration\<close>: the loop keeps the last time it could parse. The loop
  variable \<open>duration\<close> is the first argument of \<open>ffmpeg_capture_loop\<close>.
\<close>

function ffmpeg_capture_loop :: "timedelta option \<Rightarrow> proc \<Rightarrow> proc \<times> timedelta option" where
  "ffmpeg_capture_loop duration p =
     (if returncode p \<noteq> None then (p, duration)
      else
        let line = fst (readline p);
            p1 = snd (readline p);
            time = extract_ffmpeg_time line;
            duration' = (if time \<noteq> None then time else duration)
        in ffmpeg_capture_loop duration' (poll p1))"
  by pat_completeness auto
termination
  by (relation "measure (\<lambda>(d, p). proc_fuel p)")
     (auto simp: proc_fuel_def poll_def readline_def split: list.splits)

declare ffmpeg_capture_loop.simps [simp del]

definition ffmpeg_capture_duration :: "proc \<Rightarrow> proc \<times> timedelta option" where
  "ffmpeg_capture_duration p = ffmpeg_capture_loop None p"

section \<open>The world outside the program\<close>

datatype disposition = SIG_DFL | term_handler

datatype redirect = Inherit | PIPE | DEVNULL | ToFile string

record launch =
  command :: "string list"
  to_stdout :: redirect
  to_stderr :: redirect

datatype tty = EncodingPercent timedelta timedelta | LineBreak

text \<open>
  The state the program acts on: the paths that exist, the dispositions of the two
  signals, the children that the coming \<open>Popen\<close> calls will start (in order), the
  \<open>Popen\<close> calls made so far, and what was printed. The functions below are written on
  the record scheme, so that a callback may keep a state of its own in the extension.
\<close>

record world =
  files :: "string set"
  sigint :: disposition
  sigterm :: disposition
  children :: "proc list"
  launched :: "launch list"
  terminal :: "tty list"

definition Popen ::
  "string list \<Rightarrow> redirect \<Rightarrow> redirect \<Rightarrow> 'a world_scheme \<Rightarrow> 'a world_scheme \<times> (exn + proc)" where
  "Popen call out err w =
     (case children w of
        [] \<Rightarrow> (w, Inl OSError)
      | c # cs \<Rightarrow>
          (w\<lparr>children := cs,
             launched := launched w @ [\<lparr>command = call, to_stdout = out, to_stderr = err\<rparr>],
             files := files w \<union> set (creates c)\<rparr>,
           Inr c))"

section \<open>The supervised run\<close>

text \<open>
  \<open>run_with_signal_forwarding\<close>. The keyword arguments of the source are \<open>stdout\<close>,
  \<open>stderr\<close> and \<open>wait_fun\<close>. A poll strategy takes the process and the world and may
  raise; the \<open>finally\<close> clause runs on the world it leaves. The result \<open>None\<close> of the
  plain wait and the value of a poll strategy are \<open>None\<close> and \<open>Some\<close>.
\<close>

definition run_with_signal_forwarding ::
  "string list \<Rightarrow> redirect \<Rightarrow> redirect
     \<Rightarrow> (proc \<Rightarrow> 'a world_scheme \<Rightarrow> 'a world_scheme \<times> (exn + proc \<times> 'r)) option
     \<Rightarrow> 'a world_scheme \<Rightarrow> 'a world_scheme \<times> (exn + proc \<times> 'r option)" where
  "run_with_signal_forwarding call out err wait_fun w =
     (case Popen call out err w of
        (w1, Inl e) \<Rightarrow> (w1, Inl e)
      | (w1, Inr p) \<Rightarrow>
          let w2 = w1\<lparr>sigint := term_handler, sigterm := term_handler\<rparr>;
              (w3, r) =
                (case wait_fun of
                   None \<Rightarrow>
                     (case wait p of
                        Inl e \<Rightarrow> (w2, Inl e)
                      | Inr p' \<Rightarrow> (w2, Inr (p', None)))
                 | Some f \<Rightarrow>
                     (case f p w2 of
                        (w', Inl e) \<Rightarrow> (w', Inl e)
                      | (w', Inr (p', x)) \<Rightarrow> (w', Inr (p', Some x))));
              w4 = w3\<lparr>sigint := SIG_DFL, sigterm := SIG_DFL\<rparr>
          in (w4, r))"

section \<open>The progress loop\<close>

text \<open>
  A progress callback takes a sample (an elapsed time, or \<open>None\<close>) and the world, and may
  raise. \<open>ffmpeg_progress_loop\<close> is the \<open>while\<close> loop of \<open>ffmpeg_progress\<close>; an exception of
  the callback leaves the loop. \<open>timedelta()\<close> is the zero duration.
\<close>

type_synonym 'a callback =
  "timedelta option \<Rightarrow> 'a world_scheme \<Rightarrow> 'a world_scheme \<times> (exn + unit)"

function ffmpeg_progress_loop ::
  "'a callback \<Rightarrow> proc \<Rightarrow> 'a world_scheme \<Rightarrow> 'a world_scheme \<times> (exn + proc)" where
  "ffmpeg_progress_loop progress_cb p w =
     (if returncode p \<noteq> None then (w, Inr p)
      else
        let line = fst (readline p);
            p1 = snd (readline p);
            time = extract_ffmpeg_time line
        in if time \<noteq> None then
             (case progress_cb time w of
                (w', Inl e) \<Rightarrow> (w', Inl e)
              | (w', Inr u) \<Rightarrow> ffmpeg_progress_loop progress_cb (poll p1) w')
           else ffmpeg_progress_loop progress_cb (poll p1) w)"
  by pat_completeness auto
termination
  by (relation "measure (\<lambda>(cb, p, w). proc_fuel p)")
     (auto simp: proc_fuel_def poll_def readline_def split: list.splits)

declare ffmpeg_progress_loop.simps [simp del]

definition ffmpeg_progress ::
  "'a callback \<Rightarrow> proc \<Rightarrow> 'a world_scheme \<Rightarrow> 'a world_scheme \<times> (exn + proc \<times> unit)" where
  "ffmpeg_progress progress_cb p w =
     (case progress_cb (Some 0) w of
        (w1, Inl e) \<Rightarrow> (w1, Inl e)
      | (w1, Inr u) \<Rightarrow>
          (case ffmpeg_progress_loop progress_cb p w1 of
             (w2, Inl e) \<Rightarrow> (w2, Inl e)
           | (w2, Inr p') \<Rightarrow>
               (case progress_cb None w2 of
                  (w3, Inl e) \<Rightarrow> (w3, Inl e)
                | (w3, Inr u') \<Rightarrow> (w3, Inr (p', ())))))"

section \<open>The two stages\<close>

text \<open>\<open>str\<close> on an integer: its decimal digits, after a minus sign when it is negative.\<close>

fun str_nat :: "nat \<Rightarrow> string" where
  "str_nat n =
     (if n < 10 then [''0123456789'' ! n]
      else str_nat (n div 10) @ [''0123456789'' ! (n mod 10)])"

declare str_nat.simps [simp del]

definition str :: "int \<Rightarrow> string" where
  "str i = (if i < 0 then CHR ''-'' # str_nat (nat (- i)) else str_nat (nat i))"

text \<open>
  \<open>record\<close> of the source (the name is taken in Isabelle). The geometry is the tuple
  \<open>(x, y, w, h)\<close>. The exit codes accepted are those of the list \<open>[0, 255]\<close>.
\<close>

definition record_call :: "string \<Rightarrow> int \<Rightarrow> string \<Rightarrow> int \<times> int \<times> int \<times> int \<Rightarrow> string list" where
  "record_call cachefile framerate display geometry =
     (case geometry of (gx, gy, gw, gh) \<Rightarrow>
        [''ffmpeg'', ''-nostdin'']
        @ [''-video_size'', str gw @ ''x'' @ str gh,
           ''-framerate'', str framerate,
           ''-f'', ''x11grab'',
           ''-i'', display @ ''+'' @ str gx @ '','' @ str gy,
           ''-c:v'', ''libx264'',
           ''-qp'', ''0'',
           ''-preset'', ''ultrafast'',
           cachefile])"

definition record_stage ::
  "string \<Rightarrow> int \<Rightarrow> string \<Rightarrow> int \<times> int \<times> int \<times> int
     \<Rightarrow> 'a world_scheme \<Rightarrow> 'a world_scheme \<times> (exn + timedelta option)" where
  "record_stage cachefile framerate display geometry w =
     (let ffmpeg_call = record_call cachefile framerate display geometry in
      case run_with_signal_forwarding ffmpeg_call Inherit PIPE
             (Some (\<lambda>p w'. (w', Inr (ffmpeg_capture_duration p)))) w of
        (w1, Inl e) \<Rightarrow> (w1, Inl e)
      | (w1, Inr (p, duration)) \<Rightarrow>
          if returncode p \<notin> set [Some 0, Some 255]
          then (w1, Inl (CalledProcessError (returncode p) ffmpeg_call))
          else (w1, Inr (case duration of None \<Rightarrow> None | Some d \<Rightarrow> d)))"

text \<open>
  \<open>encode\<close>. The section of the configuration is the list of its keys and values in
  order (the keys of a section are distinct, so \<open>config_section[key]\<close> is the value
  beside the key). The output file is known by its name.
\<close>

datatype fileobj = File (name: string)

fun encode_options :: "(string \<times> string) list \<Rightarrow> string list" where
  "encode_options [] = []"
| "encode_options ((key, val) # rest) =
     (if take 1 key \<noteq> ''-'' then encode_options rest
      else [key] @ (if val \<noteq> [] then [val] else []) @ encode_options rest)"

definition encode_call :: "string \<Rightarrow> (string \<times> string) list \<Rightarrow> string list" where
  "encode_call source_file config_section =
     [''ffmpeg'', ''-nostdin'', ''-i'', source_file] @ encode_options config_section @ [''-'']"

definition encode ::
  "string \<Rightarrow> fileobj \<Rightarrow> (string \<times> string) list \<Rightarrow> 'a callback option
     \<Rightarrow> 'a world_scheme \<Rightarrow> 'a world_scheme \<times> (exn + unit)" where
  "encode source_file output_file config_section progress_cb w =
     (let ffmpeg_call = encode_call source_file config_section in
      case (case progress_cb of
              None \<Rightarrow>
                run_with_signal_forwarding ffmpeg_call (ToFile (name output_file)) DEVNULL None w
            | Some cb \<Rightarrow>
                run_with_signal_forwarding ffmpeg_call (ToFile (name output_file)) PIPE
                  (Some (ffmpeg_progress cb)) w) of
        (w1, Inl e) \<Rightarrow> (w1, Inl e)
      | (w1, Inr (p, u)) \<Rightarrow>
          if returncode p \<noteq> Some 0
          then (w1, Inl (CalledProcessError (returncode p) ffmpeg_call))
          else (w1, Inr ()))"

section \<open>Files\<close>

text \<open>
  The file system is the set of paths that exist. \<open>open(path, "xb")\<close> creates the file
  and raises \<open>FileExistsError\<close> when the path exists; \<open>os.unlink\<close> and \<open>shutil.rmtree\<close>
  raise \<open>FileNotFoundError\<close> on a path that does not exist; \<open>os.makedirs\<close> raises
  \<open>FileExistsError\<close> on one that does. Other failures of the operating system are not
  part of the model.
\<close>

definition open_xb :: "string \<Rightarrow> 'a world_scheme \<Rightarrow> 'a world_scheme \<times> (exn + fileobj)" where
  "open_xb path w =
     (if path \<in> files w then (w, Inl (FileExistsError path))
      else (w\<lparr>files := insert path (files w)\<rparr>, Inr (File path)))"

definition unlink :: "string \<Rightarrow> 'a world_scheme \<Rightarrow> 'a world_scheme \<times> (exn + unit)" where
  "unlink path w =
     (if path \<notin> files w then (w, Inl (FileNotFoundError path))
      else (w\<lparr>files := files w - {path}\<rparr>, Inr ()))"

definition makedirs :: "string \<Rightarrow> 'a world_scheme \<Rightarrow> 'a world_scheme \<times> (exn + unit)" where
  "makedirs path w =
     (if path \<in> files w then (w, Inl (FileExistsError path))
      else (w\<lparr>files := insert path (files w)\<rparr>, Inr ()))"

definition is_under :: "string \<Rightarrow> string \<Rightarrow> bool" where
  "is_under dir path = (path = dir \<or> prefix (dir @ ''/'') path)"

definition rmtree :: "string \<Rightarrow> 'a world_scheme \<Rightarrow> 'a world_scheme \<times> (exn + unit)" where
  "rmtree dir w =
     (if dir \<notin> files w then (w, Inl (FileNotFoundError dir))
      else (w\<lparr>files := {path \<in> files w. \<not> is_under dir path}\<rparr>, Inr ()))"

text \<open>\<open>os.path.join\<close> on two components, and \<open>os.path.expanduser\<close> for the current user.\<close>

definition path_join :: "string \<Rightarrow> string \<Rightarrow> string" where
  "path_join a b =
     (if take 1 b = ''/'' then b
      else if a = [] \<or> last a = CHR ''/'' then a @ b
      else a @ ''/'' @ b)"

definition expanduser :: "string \<Rightarrow> string \<Rightarrow> string" where
  "expanduser home path =
     (if path = ''~'' \<or> take 2 path = ''~/'' then home @ drop 1 path else path)"

section \<open>The output file\<close>

text \<open>
  \<open>str.format\<close> with one integer argument, for format strings made of text, doubled
  braces and the field \<open>{}\<close>: a second field has no argument left, a lone brace is
  malformed. Field names, conversions and format specifications are outside this
  fragment, and the function answers \<open>ValueError\<close> for them. \<open>open_output_file\<close> below
  takes the formatting function as its first argument, and what is proved of it holds
  for every such function.
\<close>

fun format_from :: "nat \<Rightarrow> string \<Rightarrow> int \<Rightarrow> exn + string" where
  "format_from n [] a = Inr []"
| "format_from n [c] a = (if c = CHR ''{'' \<or> c = CHR ''}'' then Inl ValueError else Inr [c])"
| "format_from n (c # d # ds) a =
     (if c = CHR ''{'' then
        (if d = CHR ''{'' then map_sum id ((#) CHR ''{'') (format_from n ds a)
         else if d = CHR ''}'' then
           (if n = 0 then map_sum id ((@) (str a)) (format_from (Suc n) ds a)
            else Inl IndexError)
         else Inl ValueError)
      else if c = CHR ''}'' then
        (if d = CHR ''}'' then map_sum id ((#) CHR ''}'') (format_from n ds a)
         else Inl ValueError)
      else map_sum id ((#) c) (format_from n (d # ds) a))"

definition str_format :: "string \<Rightarrow> int \<Rightarrow> exn + string" where
  "str_format pattern a = format_from 0 pattern a"

text \<open>
  \<open>open_output_file\<close>. \<open>open_slots\<close> is the \<open>for\<close> loop over the indexes it is given;
  only \<open>FileExistsError\<close> is caught, and the loop running out raises
  \<open>FileExistsError(pattern)\<close>.
\<close>

fun open_slots ::
  "(string \<Rightarrow> int \<Rightarrow> exn + string) \<Rightarrow> string \<Rightarrow> nat list
     \<Rightarrow> 'a world_scheme \<Rightarrow> 'a world_scheme \<times> (exn + fileobj)" where
  "open_slots fmt pattern [] w = (w, Inl (FileExistsError pattern))"
| "open_slots fmt pattern (i # rest) w =
     (case fmt pattern (int i) of
        Inl e \<Rightarrow> (w, Inl e)
      | Inr path \<Rightarrow>
          (case open_xb path w of
             (w', Inl (FileExistsError x)) \<Rightarrow> open_slots fmt pattern rest w'
           | (w', Inl e) \<Rightarrow> (w', Inl e)
           | (w', Inr f) \<Rightarrow> (w', Inr f)))"

definition open_output_file ::
  "(string \<Rightarrow> int \<Rightarrow> exn + string) \<Rightarrow> string
     \<Rightarrow> 'a world_scheme \<Rightarrow> 'a world_scheme \<times> (exn + fileobj)" where
  "open_output_file fmt pattern w =
     (if CHR ''{'' \<notin> set pattern then open_xb pattern w
      else open_slots fmt pattern [0..<1000] w)"

section \<open>The driver\<close>

text \<open>
  \<open>print_progress\<close>. Both arguments may be \<open>None\<close>: \<open>record\<close> returns \<open>None\<close> when it
  parsed no time. \<open>total_seconds\<close> of \<open>None\<close> raises \<open>AttributeError\<close>, and the division
  by a zero duration raises \<open>ZeroDivisionError\<close>. What is printed is kept as the two
  operands of the percentage, and the line break.
\<close>

definition print_progress ::
  "timedelta option \<Rightarrow> timedelta option \<Rightarrow> 'a world_scheme \<Rightarrow> 'a world_scheme \<times> (exn + unit)" where
  "print_progress duration time w =
     (let time' = (if time = None then duration else time) in
      case time' of
        None \<Rightarrow> (w, Inl AttributeError)
      | Some t \<Rightarrow>
          (case duration of
             None \<Rightarrow> (w, Inl AttributeError)
           | Some d \<Rightarrow>
               if d = 0 then (w, Inl ZeroDivisionError)
               else
                 let w1 = w\<lparr>terminal := terminal w @ [EncodingPercent t d]\<rparr> in
                 if time' = duration then (w1\<lparr>terminal := terminal w1 @ [LineBreak]\<rparr>, Inr ())
                 else (w1, Inr ())))"

text \<open>
  \<open>functools.partial(func, arg)\<close>: the constructor raises \<open>TypeError\<close> when its first
  argument is not callable, as \<open>None\<close> is not.
\<close>

definition functools_partial :: "('x \<Rightarrow> 'f) option \<Rightarrow> 'x \<Rightarrow> exn + 'f" where
  "functools_partial func arg = (case func of None \<Rightarrow> Inl TypeError | Some f \<Rightarrow> Inr (f arg))"

text \<open>
  What the driver reads before the pipeline starts: the two command-line options that
  the pipeline uses, the configuration (the option \<open>cachedir\<close> of the section
  \<open>general\<close>, and the section \<open>encode\<close>, each of which may be missing), and the
  environment: the geometry found by \<open>discover_geometry\<close>, the display, the home
  directory, the cache path of \<open>xdg\<close>, and the token made of the date and the process id.
\<close>

record args =
  args_progress :: bool
  args_framerate :: int

record config =
  general_cachedir :: "string option"
  encode_section :: "(string \<times> string) list option"

record environ =
  env_geometry :: "int \<times> int \<times> int \<times> int"
  env_display :: string
  env_home :: string
  env_cache_path :: string
  env_token :: string

definition INITIAL_FILE_NAME :: string where
  "INITIAL_FILE_NAME = ''first.mkv''"

definition get_cachedir ::
  "config \<Rightarrow> environ \<Rightarrow> 'a world_scheme \<Rightarrow> 'a world_scheme \<times> (exn + string)" where
  "get_cachedir cfg env w =
     (let cachedir = (case general_cachedir cfg of Some c \<Rightarrow> c | None \<Rightarrow> env_cache_path env);
          cachedir' = path_join cachedir (env_token env)
      in case makedirs cachedir' w of
           (w1, Inl e) \<Rightarrow> (w1, Inl e)
         | (w1, Inr u) \<Rightarrow> (w1, Inr cachedir'))"

text \<open>\<open>config.get("encode", "output", fallback="~/out-{}.ogv")\<close>.\<close>

definition config_output :: "config \<Rightarrow> string" where
  "config_output cfg =
     (case encode_section cfg of
        None \<Rightarrow> ''~/out-{}.ogv''
      | Some sec \<Rightarrow> (case map_of sec ''output'' of None \<Rightarrow> ''~/out-{}.ogv'' | Some v \<Rightarrow> v))"

text \<open>
  The body of the script from the creation of the cache directory on. The \<open>with\<close>
  statement closes the output file on every way out, which changes nothing here.
  The arguments of the call of \<open>encode\<close> are evaluated before the call, in order:
  \<open>config["encode"]\<close> raises \<open>KeyError\<close> when there is no such section, then
  \<open>functools.partial(progress_cb, duration)\<close> is built.
\<close>

definition main ::
  "(string \<Rightarrow> int \<Rightarrow> exn + string) \<Rightarrow> args \<Rightarrow> config \<Rightarrow> environ
     \<Rightarrow> 'a world_scheme \<Rightarrow> 'a world_scheme \<times> (exn + unit)" where
  "main fmt a cfg env w =
     (case get_cachedir cfg env w of
        (w1, Inl e) \<Rightarrow> (w1, Inl e)
      | (w1, Inr cachedir) \<Rightarrow>
          let progress_cb = (if args_progress a then Some print_progress else None);
              recording_filename = path_join cachedir INITIAL_FILE_NAME
          in
          (case open_output_file fmt (expanduser (env_home env) (config_output cfg)) w1 of
             (w2, Inl e) \<Rightarrow> (w2, Inl e)
           | (w2, Inr dest) \<Rightarrow>
               (case record_stage recording_filename (args_framerate a) (env_display env)
                       (env_geometry env) w2 of
                  (w3, Inl e) \<Rightarrow>
                    (case unlink (name dest) w3 of
                       (w4, Inl e') \<Rightarrow> (w4, Inl e')
                     | (w4, Inr u) \<Rightarrow> (w4, Inl e))
                | (w3, Inr duration) \<Rightarrow>
                    (case encode_section cfg of
                       None \<Rightarrow> (w3, Inl (KeyError ''encode''))
                     | Some sec \<Rightarrow>
                         (case functools_partial progress_cb duration of
                            Inl e \<Rightarrow> (w3, Inl e)
                          | Inr cb \<Rightarrow>
                              (case encode recording_filename dest sec (Some cb) w3 of
                                 (w4, Inl e) \<Rightarrow> (w4, Inl e)
                               | (w4, Inr u) \<Rightarrow> rmtree cachedir w4))))))"

section \<open>What a read-and-poll loop sees of a child\<close>

text \<open>
  Both poll strategies read one line and poll once per round, until a poll has seen the
  child exit. \<open>lines_read\<close> is the list of lines such a loop reads, \<open>run_out\<close> the process
  it leaves, and \<open>exit_status\<close> the exit code that the first successful poll, or the
  wait, sees. \<open>parsed\<close> keeps the times of the lines that carry one.
\<close>

function lines_read :: "proc \<Rightarrow> string list" where
  "lines_read p =
     (if returncode p \<noteq> None then []
      else fst (readline p) # lines_read (poll (snd (readline p))))"
  by pat_completeness auto
termination
  by (relation "measure proc_fuel")
     (auto simp: proc_fuel_def poll_def readline_def split: list.splits)

declare lines_read.simps [simp del]

function run_out :: "proc \<Rightarrow> proc" where
  "run_out p = (if returncode p \<noteq> None then p else run_out (poll (snd (readline p))))"
  by pat_completeness auto
termination
  by (relation "measure proc_fuel")
     (auto simp: proc_fuel_def poll_def readline_def split: list.splits)

declare run_out.simps [simp del]

fun first_exit :: "int option list \<Rightarrow> int \<Rightarrow> int" where
  "first_exit [] d = d"
| "first_exit (None # rs) d = first_exit rs d"
| "first_exit (Some r # rs) d = r"

definition exit_status :: "proc \<Rightarrow> int" where
  "exit_status p =
     (case returncode p of Some r \<Rightarrow> r | None \<Rightarrow> first_exit (polls p) (final_rc p))"

definition parsed :: "string list \<Rightarrow> timedelta list" where
  "parsed ls = List.map_filter extract_ffmpeg_time ls"

definition last_duration :: "string list \<Rightarrow> timedelta option" where
  "last_duration ls = (case parsed ls of [] \<Rightarrow> None | t # ts \<Rightarrow> Some (last (t # ts)))"

text \<open>
  \<open>deliver\<close> calls a callback on the samples of a list, in order, and stops at the first
  call that raises. \<open>record_sample\<close> is a callback that raises nothing and appends each
  sample to a list kept in the extension of the world.
\<close>

fun deliver ::
  "'a callback \<Rightarrow> timedelta option list \<Rightarrow> 'a world_scheme \<Rightarrow> 'a world_scheme \<times> (exn + unit)" where
  "deliver cb [] w = (w, Inr ())"
| "deliver cb (x # xs) w =
     (case cb x w of
        (w', Inl e) \<Rightarrow> (w', Inl e)
      | (w', Inr u) \<Rightarrow> deliver cb xs w')"

definition record_sample :: "(timedelta option list) callback" where
  "record_sample x w = (w\<lparr>world.more := world.more w @ [x]\<rparr>, Inr ())"

definition elapsed_values :: "timedelta option list \<Rightarrow> timedelta list" where
  "elapsed_values xs = List.map_filter id xs"

section \<open>Scripted children and worlds for the examples\<close>

text \<open>
  \<open>scripted ls rc\<close> is a child that is seen running until the loop has read the
  lines \<open>ls\<close>, and then exits with the code \<open>rc\<close>. \<open>world_of\<close> is a world with no file, the
  default dispositions and the given children to come; \<open>recorder_of\<close> is the same with an
  empty list of recorded samples as its extension.
\<close>

definition scripted :: "string list \<Rightarrow> int \<Rightarrow> proc" where
  "scripted ls rc =
     \<lparr>returncode = None, stderr = ls, polls = replicate (length ls - 1) None,
      final_rc = rc, wait_error = None, creates = []\<rparr>"

definition world_of :: "string set \<Rightarrow> proc list \<Rightarrow> world" where
  "world_of fs cs =
     \<lparr>files = fs, sigint = SIG_DFL, sigterm = SIG_DFL, children = cs,
      launched = [], terminal = []\<rparr>"

definition recorder_of :: "proc list \<Rightarrow> (timedelta option list) world_scheme" where
  "recorder_of cs =
     \<lparr>files = {}, sigint = SIG_DFL, sigterm = SIG_DFL, children = cs,
      launched = [], terminal = [], \<dots> = []\<rparr>"

text \<open>
  The path that \<open>get_cachedir\<close> makes, and a run of the driver for the examples: the
  cache directory is \<open>/c/t\<close>, the home directory \<open>/h\<close>, the section \<open>encode\<close> holds one
  option, the capture child writes \<open>/c/t/first.mkv\<close> and two stamps, and the encode
  child writes two stamps. \<open>example_run progress rc1 rc2\<close> runs the driver where the
  capture child exits with \<open>rc1\<close> and the encode child with \<open>rc2\<close>.
\<close>

definition cachedir_path :: "config \<Rightarrow> environ \<Rightarrow> string" where
  "cachedir_path cfg env =
     path_join (case general_cachedir cfg of Some c \<Rightarrow> c | None \<Rightarrow> env_cache_path env)
       (env_token env)"

definition example_config :: config where
  "example_config =
     \<lparr>general_cachedir = Some ''/c'', encode_section = Some [(''-c:v'', ''libtheora'')]\<rparr>"

definition example_environ :: environ where
  "example_environ =
     \<lparr>env_geometry = (0, 0, 640, 480), env_display = '':0'', env_home = ''/h'',
      env_cache_path = ''/x'', env_token = ''t''\<rparr>"

definition capture_child :: "int \<Rightarrow> proc" where
  "capture_child rc =
     (scripted [''time=00:00:01.00'', ''time=00:00:02.00''] rc)\<lparr>creates := [''/c/t/first.mkv'']\<rparr>"

definition encode_child :: "int \<Rightarrow> proc" where
  "encode_child rc = scripted [''time=00:00:01.00'', ''time=00:00:02.00''] rc"

definition example_run :: "bool \<Rightarrow> int \<Rightarrow> int \<Rightarrow> world \<times> (exn + unit)" where
  "example_run progress rc1 rc2 =
     main str_format \<lparr>args_progress = progress, args_framerate = 25\<rparr>
       example_config example_environ (world_of {} [capture_child rc1, encode_child rc2])"

text \<open>
  The two \<open>Popen\<close> calls of that run, and what a run with progress output prints.
\<close>

definition capture_launch :: launch where
  "capture_launch =
     \<lparr>command = record_call ''/c/t/first.mkv'' 25 '':0'' (0, 0, 640, 480),
      to_stdout = Inherit, to_stderr = PIPE\<rparr>"

definition encode_launch :: launch where
  "encode_launch =
     \<lparr>command = encode_call ''/c/t/first.mkv'' [(''-c:v'', ''libtheora'')],
      to_stdout = ToFile ''/h/out-0.ogv'', to_stderr = PIPE\<rparr>"

definition example_terminal :: "tty list" where
  "example_terminal =
     [EncodingPercent 0 2000000, EncodingPercent 1000000 2000000,
      EncodingPercent 2000000 2000000, LineBreak,
      EncodingPercent 2000000 2000000, LineBreak]"

section \<open>The parser: what it accepts\<close>

text \<open>
  A line that starts with a stamp of the form \<open>time=HH:MM:SS.CC\<close>, eight decimal digits
  in the four fields, gives the duration of the spec: hours, minutes, seconds, and
  \<open>CC\<close> times 10000 microseconds. A parsed time is never negative. The function is
  total: it fails on no line.
\<close>

lemma match_here_well_formed:
  assumes "is_digit h1" "is_digit h2" "is_digit m1" "is_digit m2"
          "is_digit s1" "is_digit s2" "is_digit c1" "is_digit c2" "sep \<noteq> line_feed"
  shows "match_here (''time='' @ [h1, h2] @ '':'' @ [m1, m2] @ '':'' @ [s1, s2] @ [sep] @ [c1, c2] @ rest)
         = Some ([h1, h2], [m1, m2], [s1, s2], [c1, c2])"
  using assms by (simp add: match_here_def)

lemma int_of_str_two: "int_of_str [a, b] = 10 * digit_val a + digit_val b"
  by (simp add: int_of_str_def)

lemma extract_well_formed:
  assumes "is_digit h1" "is_digit h2" "is_digit m1" "is_digit m2"
          "is_digit s1" "is_digit s2" "is_digit c1" "is_digit c2"
  shows "extract_ffmpeg_time (''time='' @ [h1, h2] @ '':'' @ [m1, m2] @ '':'' @ [s1, s2] @ ''.'' @ [c1, c2] @ rest)
         = Some (timedelta_of (10 * digit_val h1 + digit_val h2) (10 * digit_val m1 + digit_val m2)
                   (10 * digit_val s1 + digit_val s2) ((10 * digit_val c1 + digit_val c2) * 10000))"
proof -
  have "match_here (''time='' @ [h1, h2] @ '':'' @ [m1, m2] @ '':'' @ [s1, s2] @ [CHR ''.''] @ [c1, c2] @ rest)
         = Some ([h1, h2], [m1, m2], [s1, s2], [c1, c2])"
    by (rule match_here_well_formed) (use assms in \<open>simp_all add: line_feed_def\<close>)
  then show ?thesis
    by (simp add: extract_ffmpeg_time_def int_of_str_two)
qed

lemma digit_val_range: "is_digit c \<Longrightarrow> 0 \<le> digit_val c \<and> digit_val c \<le> 9"
  by (auto simp: is_digit_def digit_val_def)

lemma match_here_digits:
  assumes "match_here s = Some (h, m, sec, c)"
  shows "(\<exists>a b. h = [a, b] \<and> is_digit a \<and> is_digit b) \<and> (\<exists>a b. m = [a, b] \<and> is_digit a \<and> is_digit b)
       \<and> (\<exists>a b. sec = [a, b] \<and> is_digit a \<and> is_digit b) \<and> (\<exists>a b. c = [a, b] \<and> is_digit a \<and> is_digit b)"
proof -
  have two: "take 2 (drop k s) = [s ! k, s ! Suc k]" if "Suc k < length s" for k
    using that by (metis Cons_nth_drop_Suc Suc_lessD take0 take_Suc_Cons numeral_2_eq_2)
  from assms have c: "16 \<le> length s" "is_digit (s ! 5)" "is_digit (s ! 6)" "is_digit (s ! 8)" "is_digit (s ! 9)"
    "is_digit (s ! 11)" "is_digit (s ! 12)" "is_digit (s ! 14)" "is_digit (s ! 15)"
    and g: "h = take 2 (drop 5 s)" "m = take 2 (drop 8 s)" "sec = take 2 (drop 11 s)" "c = take 2 (drop 14 s)"
    by (auto simp: match_here_def split: if_splits)
  have "h = [s ! 5, s ! Suc 5]" "m = [s ! 8, s ! Suc 8]" "sec = [s ! 11, s ! Suc 11]" "c = [s ! 14, s ! Suc 14]"
    using c(1) by (simp_all only: g two)
  then show ?thesis using c by (simp add: eval_nat_numeral)
qed

lemma re_search_match: "re_search s = Some g \<Longrightarrow> \<exists>t. match_here t = Some g"
  by (induction s) (auto split: option.splits)

lemma extract_ffmpeg_time_nonneg: "extract_ffmpeg_time line = Some t \<Longrightarrow> 0 \<le> t"
proof -
  assume a: "extract_ffmpeg_time line = Some t"
  then obtain h m s c where g: "re_search line = Some (h, m, s, c)"
    and t: "t = timedelta_of (int_of_str h) (int_of_str m) (int_of_str s) (int_of_str c * 10000)"
    by (auto simp: extract_ffmpeg_time_def split: option.splits)
  from re_search_match [OF g] obtain u where "match_here u = Some (h, m, s, c)" by blast
  from match_here_digits [OF this]
  have "0 \<le> int_of_str h" "0 \<le> int_of_str m" "0 \<le> int_of_str s" "0 \<le> int_of_str c"
    using digit_val_range by (auto simp: int_of_str_two)
  then show ?thesis unfolding t timedelta_of_def by simp
qed

text \<open>
  C4. The parser is to return a duration for the lines that carry a stamp
  \<open>time=HH:MM:SS.CC\<close> and absent for every other line. The dot of the pattern is not
  escaped, so any character other than a line feed is accepted between the seconds and
  the hundredths: on the line \<open>time=00:00:01x50\<close>, which carries no such stamp, the
  parser returns one second and a half instead of absent.
\<close>

theorem extract_ffmpeg_time_any_separator:
  "extract_ffmpeg_time ''time=00:00:01x50'' = Some (timedelta_of 0 0 1 500000)"
  by (simp add: extract_ffmpeg_time_def match_here_def is_digit_def line_feed_def
        int_of_str_def digit_val_def timedelta_of_def)

section \<open>The loops and the child\<close>

lemma capture_loop_lines:
  "ffmpeg_capture_loop d p =
     (run_out p, (case parsed (lines_read p) of [] \<Rightarrow> d | t # ts \<Rightarrow> Some (last (t # ts))))"
proof (induction d p rule: ffmpeg_capture_loop.induct)
  case (1 duration p)
  show ?case
  proof (cases "returncode p")
    case (Some r)
    then show ?thesis
      by (simp add: ffmpeg_capture_loop.simps [of duration p] run_out.simps [of p]
            lines_read.simps [of p] parsed_def)
  next
    case None
    show ?thesis
      using None 1 [OF _ refl refl refl refl]
      by (cases "extract_ffmpeg_time (fst (readline p))")
         (auto simp: ffmpeg_capture_loop.simps [of duration p] run_out.simps [of p]
            lines_read.simps [of p] parsed_def Let_def split: list.splits)
  qed
qed

lemma exit_status_poll:
  "returncode p = None \<Longrightarrow> exit_status (poll p) = exit_status p"
  by (cases "polls p"; cases "hd (polls p)") (auto simp: exit_status_def poll_def)

lemma exit_status_readline: "exit_status (snd (readline p)) = exit_status p"
  by (auto simp: exit_status_def readline_def split: list.splits option.splits)

lemma returncode_readline: "returncode (snd (readline p)) = returncode p"
  by (auto simp: readline_def split: list.splits)

lemma run_out_exit_status: "returncode (run_out p) = Some (exit_status p)"
proof (induction p rule: run_out.induct)
  case (1 p)
  show ?case
  proof (cases "returncode p")
    case (Some r)
    then show ?thesis by (simp add: run_out.simps [of p] exit_status_def)
  next
    case None
    then show ?thesis
      using 1 by (simp add: run_out.simps [of p] exit_status_poll exit_status_readline returncode_readline)
  qed
qed

lemma wait_for_exit_status: "returncode (wait_for p) = Some (exit_status p)"
proof (induction p rule: wait_for.induct)
  case (1 p)
  show ?case
  proof (cases "returncode p")
    case (Some r)
    then show ?thesis by (simp add: wait_for.simps [of p] exit_status_def)
  next
    case None
    then show ?thesis using 1 by (simp add: wait_for.simps [of p] exit_status_poll)
  qed
qed

lemma deliver_append:
  "deliver cb (xs @ ys) w =
     (case deliver cb xs w of (w', Inl e) \<Rightarrow> (w', Inl e) | (w', Inr u) \<Rightarrow> deliver cb ys w')"
  by (induction xs arbitrary: w) (auto split: prod.splits sum.splits)

lemma progress_loop_deliver:
  "ffmpeg_progress_loop cb p w =
     (case deliver cb (map Some (parsed (lines_read p))) w of
        (w', Inl e) \<Rightarrow> (w', Inl e)
      | (w', Inr u) \<Rightarrow> (w', Inr (run_out p)))"
proof (induction cb p w rule: ffmpeg_progress_loop.induct)
  case (1 cb p w)
  show ?case
  proof (cases "returncode p")
    case (Some r)
    then show ?thesis
      by (simp add: ffmpeg_progress_loop.simps [of cb p w] run_out.simps [of p]
            lines_read.simps [of p] parsed_def)
  next
    case None
    show ?thesis
    proof (cases "extract_ffmpeg_time (fst (readline p))")
      case none: None
      then show ?thesis
        using None 1(2) [OF _ refl refl refl]
        by (simp add: ffmpeg_progress_loop.simps [of cb p w] run_out.simps [of p]
              lines_read.simps [of p] parsed_def
              split: prod.splits sum.splits)
    next
      case (Some t)
      show ?thesis
      proof (cases "cb (Some t) w")
        case (Pair w' r)
        show ?thesis
        proof (cases r)
          case (Inl e)
          then show ?thesis
            using None Some Pair
            by (simp add: ffmpeg_progress_loop.simps [of cb p w] run_out.simps [of p]
                  lines_read.simps [of p] parsed_def
                  split: prod.splits sum.splits)
        next
          case (Inr u)
          then show ?thesis
            using None Some Pair 1(1) [OF _ refl refl refl _ _ refl, of w' u]
            by (simp add: ffmpeg_progress_loop.simps [of cb p w] run_out.simps [of p]
                  lines_read.simps [of p] parsed_def
                  split: prod.splits sum.splits)
        qed
      qed
    qed
  qed
qed

lemma ffmpeg_progress_deliver:
  "ffmpeg_progress cb p w =
     (case deliver cb (Some 0 # map Some (parsed (lines_read p)) @ [None]) w of
        (w', Inl e) \<Rightarrow> (w', Inl e)
      | (w', Inr u) \<Rightarrow> (w', Inr (run_out p, ())))"
  by (auto simp: ffmpeg_progress_def progress_loop_deliver deliver_append
           split: prod.splits sum.splits)

lemma deliver_total:
  "(\<forall>x v. snd (f x v) = Inr ()) \<Longrightarrow> snd (deliver f xs w) = Inr ()"
proof (induction xs arbitrary: w)
  case Nil
  show ?case by simp
next
  case (Cons x xs)
  obtain w' r where fx: "f x w = (w', r)" by (cases "f x w")
  with Cons.prems have "r = Inr ()" by (metis snd_conv)
  with fx Cons show ?case by simp
qed

lemma extract_empty: "extract_ffmpeg_time [] = None"
  by (simp add: extract_ffmpeg_time_def)

lemma parsed_Cons:
  "parsed (l # ls) = (case extract_ffmpeg_time l of None \<Rightarrow> parsed ls | Some t \<Rightarrow> t # parsed ls)"
  by (simp add: parsed_def split: option.splits)

lemma stderr_poll: "stderr (poll p) = stderr p"
  by (simp add: poll_def split: list.splits)

lemma parsed_lines_read_prefix: "prefix (parsed (lines_read p)) (parsed (stderr p))"
proof (induction p rule: lines_read.induct)
  case (1 p)
  show ?case
  proof (cases "returncode p")
    case (Some r)
    then show ?thesis by (simp add: lines_read.simps [of p] parsed_def)
  next
    case None
    note ih = 1 [unfolded stderr_poll]
    show ?thesis
    proof (cases "stderr p")
      case Nil
      then show ?thesis
        using None ih
        by (simp add: lines_read.simps [of p] readline_def parsed_Cons extract_empty)
    next
      case (Cons x xs)
      then show ?thesis
        using None ih
        by (simp add: lines_read.simps [of p] readline_def parsed_Cons split: option.splits)
    qed
  qed
qed

lemma deliver_record_sample:
  "deliver record_sample xs w = (w\<lparr>world.more := world.more w @ xs\<rparr>, Inr ())"
  by (induction xs arbitrary: w) (simp_all add: record_sample_def)

lemma progress_recorded:
  "ffmpeg_progress record_sample p w =
     (w\<lparr>world.more := world.more w @ Some 0 # map Some (parsed (lines_read p)) @ [None]\<rparr>,
      Inr (run_out p, ()))"
  by (simp add: ffmpeg_progress_deliver deliver_record_sample record_sample_def)

lemma parsed_nonneg: "t \<in> set (parsed ls) \<Longrightarrow> 0 \<le> t"
  by (induction ls) (auto simp: parsed_Cons parsed_def
       dest: extract_ffmpeg_time_nonneg split: option.splits)

section \<open>The supervised run restores the signal handlers\<close>

text \<open>
  C7. Whenever the supervised run has started its child, the dispositions of SIGINT and
  of SIGTERM are the default one in the world it leaves: after the plain wait, after a
  poll strategy that returns, and after a wait or a poll strategy that raises.
\<close>

theorem run_with_signal_forwarding_restores:
  assumes "children w \<noteq> []"
  shows "sigint (fst (run_with_signal_forwarding call out err wait_fun w)) = SIG_DFL
       \<and> sigterm (fst (run_with_signal_forwarding call out err wait_fun w)) = SIG_DFL"
  using assms
  by (auto simp: run_with_signal_forwarding_def Popen_def Let_def
           split: list.splits prod.splits sum.splits option.splits)

theorem run_with_signal_forwarding_restores_witness:
  "sigint (fst (run_with_signal_forwarding [''ffmpeg''] Inherit PIPE
      (Some (\<lambda>p v. (v, Inl ValueError :: exn + proc \<times> unit))) (world_of {} [scripted [] 0]))) = SIG_DFL
   \<and> sigterm (fst (run_with_signal_forwarding [''ffmpeg''] Inherit PIPE
      (Some (\<lambda>p v. (v, Inl ValueError :: exn + proc \<times> unit))) (world_of {} [scripted [] 0]))) = SIG_DFL
   \<and> snd (run_with_signal_forwarding [''ffmpeg''] Inherit PIPE
      (Some (\<lambda>p v. (v, Inl ValueError :: exn + proc \<times> unit))) (world_of {} [scripted [] 0])) = Inl ValueError"
proof -
  have c: "children (world_of {} [scripted [] 0]) \<noteq> []" by (simp add: world_of_def)
  show ?thesis
    using run_with_signal_forwarding_restores [OF c, of "[''ffmpeg'']" Inherit PIPE
        "Some (\<lambda>p v. (v, Inl ValueError :: exn + proc \<times> unit))"]
    by (simp add: run_with_signal_forwarding_def Popen_def world_of_def)
qed

section \<open>The exit codes of the capture stage\<close>

lemma record_stage_run:
  assumes "children w = c # cs"
  shows "record_stage cf fr disp geo w =
           (w\<lparr>children := cs,
              launched := launched w
                @ [\<lparr>command = record_call cf fr disp geo, to_stdout = Inherit, to_stderr = PIPE\<rparr>],
              files := files w \<union> set (creates c),
              sigint := SIG_DFL, sigterm := SIG_DFL\<rparr>,
            if exit_status c = 0 \<or> exit_status c = 255
            then Inr (last_duration (lines_read c))
            else Inl (CalledProcessError (Some (exit_status c)) (record_call cf fr disp geo)))"
  using assms run_out_exit_status [of c]
  by (simp add: record_stage_def run_with_signal_forwarding_def Popen_def Let_def
        ffmpeg_capture_duration_def capture_loop_lines last_duration_def)

lemma record_stage_no_child:
  "children w = [] \<Longrightarrow> record_stage cf fr disp geo w = (w, Inl OSError)"
  by (simp add: record_stage_def run_with_signal_forwarding_def Popen_def Let_def)

text \<open>
  C5. The capture stage succeeds exactly when its child exits with the code 0 or with
  the code 255, the one \<open>ffmpeg\<close> exits with after a request to terminate. It then returns
  the last time parsed from the lines it read, or \<open>None\<close> when none carried a time. On
  every other exit code it raises \<open>CalledProcessError\<close> with that code and the command.
\<close>

theorem record_exit_policy:
  assumes "children w = c # cs"
  shows "snd (record_stage cachefile framerate display geometry w) =
           (if exit_status c = 0 \<or> exit_status c = 255
            then Inr (last_duration (lines_read c))
            else Inl (CalledProcessError (Some (exit_status c))
                        (record_call cachefile framerate display geometry)))"
  using assms by (simp add: record_stage_run)

theorem record_exit_policy_witness:
  "snd (record_stage ''c/first.mkv'' 25 '':0'' (0, 0, 640, 480)
          (world_of {} [scripted [''time=00:00:01.00'', ''time=00:00:02.50''] 255]))
   = Inr (Some 2500000)
   \<and> snd (record_stage ''c/first.mkv'' 25 '':0'' (0, 0, 640, 480)
          (world_of {} [scripted [''time=00:00:01.00''] 1]))
   = Inl (CalledProcessError (Some 1) (record_call ''c/first.mkv'' 25 '':0'' (0, 0, 640, 480)))"
proof -
  have a: "exit_status (scripted [''time=00:00:01.00'', ''time=00:00:02.50''] 255) = 255"
    by code_simp
  have b: "last_duration (lines_read (scripted [''time=00:00:01.00'', ''time=00:00:02.50''] 255))
           = Some 2500000"
    by code_simp
  have c: "exit_status (scripted [''time=00:00:01.00''] 1) = 1" by code_simp
  show ?thesis
    using record_exit_policy [of "world_of {} [scripted [''time=00:00:01.00'', ''time=00:00:02.50''] 255]"
            "scripted [''time=00:00:01.00'', ''time=00:00:02.50''] 255" "[]"
            "''c/first.mkv''" 25 "'':0''" "(0, 0, 640, 480)"]
          record_exit_policy [of "world_of {} [scripted [''time=00:00:01.00''] 1]"
            "scripted [''time=00:00:01.00''] 1" "[]"
            "''c/first.mkv''" 25 "'':0''" "(0, 0, 640, 480)"]
    by (simp add: a b c world_of_def)
qed

section \<open>The exit codes of the encode stage\<close>

lemma encode_run_plain:
  assumes "children w = c # cs"
  shows "encode src out sec None w =
           (w\<lparr>children := cs,
              launched := launched w
                @ [\<lparr>command = encode_call src sec, to_stdout = ToFile (name out), to_stderr = DEVNULL\<rparr>],
              files := files w \<union> set (creates c),
              sigint := SIG_DFL, sigterm := SIG_DFL\<rparr>,
            case wait_error c of
              Some e \<Rightarrow> Inl e
            | None \<Rightarrow>
                if exit_status c = 0 then Inr ()
                else Inl (CalledProcessError (Some (exit_status c)) (encode_call src sec)))"
  using assms wait_for_exit_status [of c]
  by (simp add: encode_def run_with_signal_forwarding_def Popen_def Let_def wait_def
           split: option.splits)

lemma encode_run_callback:
  assumes "children w = c # cs"
  shows "encode src out sec (Some cb) w =
           (case deliver cb (Some 0 # map Some (parsed (lines_read c)) @ [None])
                   (w\<lparr>children := cs,
                      launched := launched w
                        @ [\<lparr>command = encode_call src sec, to_stdout = ToFile (name out), to_stderr = PIPE\<rparr>],
                      files := files w \<union> set (creates c),
                      sigint := term_handler, sigterm := term_handler\<rparr>) of
              (w', Inl e) \<Rightarrow> (w'\<lparr>sigint := SIG_DFL, sigterm := SIG_DFL\<rparr>, Inl e)
            | (w', Inr u) \<Rightarrow>
                (w'\<lparr>sigint := SIG_DFL, sigterm := SIG_DFL\<rparr>,
                 if exit_status c = 0 then Inr ()
                 else Inl (CalledProcessError (Some (exit_status c)) (encode_call src sec))))"
  using assms run_out_exit_status [of c]
  by (simp add: encode_def run_with_signal_forwarding_def Popen_def Let_def
        ffmpeg_progress_deliver split: prod.splits sum.splits)

text \<open>
  C6. The encode stage returns normally only when its child exits with the code 0. When
  neither the wait nor the callback raises, every other exit code, 255 among them, gives
  \<open>CalledProcessError\<close> with that code and the command.
\<close>

theorem encode_exit_policy:
  assumes "children w = c # cs"
  shows "(snd (encode src out sec cb w) = Inr () \<longrightarrow> exit_status c = 0)
       \<and> ((case cb of None \<Rightarrow> wait_error c = None | Some f \<Rightarrow> \<forall>x v. snd (f x v) = Inr ())
            \<longrightarrow> snd (encode src out sec cb w) =
                  (if exit_status c = 0 then Inr ()
                   else Inl (CalledProcessError (Some (exit_status c)) (encode_call src sec))))"
proof (cases cb)
  case None
  then show ?thesis
    using assms by (auto simp: encode_run_plain split: option.splits)
next
  case (Some f)
  show ?thesis
  proof (intro conjI impI)
    assume "snd (encode src out sec cb w) = Inr ()"
    then show "exit_status c = 0"
      using assms Some by (auto simp: encode_run_callback split: prod.splits sum.splits if_splits)
  next
    assume "case cb of None \<Rightarrow> wait_error c = None | Some f \<Rightarrow> \<forall>x v. snd (f x v) = Inr ()"
    then have tot: "\<forall>x v. snd (f x v) = Inr ()" using Some by simp
    obtain w' r where d: "deliver f (Some 0 # map Some (parsed (lines_read c)) @ [None])
                   (w\<lparr>children := cs,
                      launched := launched w
                        @ [\<lparr>command = encode_call src sec, to_stdout = ToFile (name out), to_stderr = PIPE\<rparr>],
                      files := files w \<union> set (creates c),
                      sigint := term_handler, sigterm := term_handler\<rparr>) = (w', r)"
      by (metis surj_pair)
    have "r = Inr ()" using deliver_total [OF tot] d by (metis snd_conv)
    then show "snd (encode src out sec cb w) =
                  (if exit_status c = 0 then Inr ()
                   else Inl (CalledProcessError (Some (exit_status c)) (encode_call src sec)))"
      using assms Some d by (simp add: encode_run_callback)
  qed
qed

theorem encode_exit_policy_witness:
  "snd (encode ''c/first.mkv'' (File ''out-0.ogv'') [] None (world_of {} [scripted [] 255]))
   = Inl (CalledProcessError (Some 255) (encode_call ''c/first.mkv'' []))
   \<and> snd (encode ''c/first.mkv'' (File ''out-0.ogv'') [] None (world_of {} [scripted [] 0]))
   = Inr ()"
proof -
  have a: "exit_status (scripted [] 255) = 255" by code_simp
  have b: "exit_status (scripted [] 0) = 0" by code_simp
  have w: "wait_error (scripted [] rc) = None" for rc by (simp add: scripted_def)
  show ?thesis
    using encode_exit_policy [of "world_of {} [scripted [] 255]" "scripted [] 255" "[]"
            "''c/first.mkv''" "File ''out-0.ogv''" "[]" None]
          encode_exit_policy [of "world_of {} [scripted [] 0]" "scripted [] 0" "[]"
            "''c/first.mkv''" "File ''out-0.ogv''" "[]" None]
    by (simp add: a b w world_of_def)
qed

section \<open>The samples given to the progress callback\<close>

text \<open>
  C9. With a callback, the progress loop calls it on the zero duration before it reads
  any line, then on the time of each line read that carries one, in order, and not for
  the other lines, and at last once on \<open>None\<close>, after the child was seen to exit. A call
  that raises ends the sequence there.
\<close>

theorem ffmpeg_progress_calls:
  "ffmpeg_progress progress_cb p w =
     (case deliver progress_cb (Some 0 # map Some (parsed (lines_read p)) @ [None]) w of
        (w', Inl e) \<Rightarrow> (w', Inl e)
      | (w', Inr u) \<Rightarrow> (w', Inr (run_out p, ())))"
  by (rule ffmpeg_progress_deliver)

theorem ffmpeg_progress_calls_witness:
  "world.more (fst (ffmpeg_progress record_sample
      (scripted [''time=00:00:01.00'', ''time=00:00:02.00''] 0) (recorder_of [])))
   = [Some 0, Some 1000000, Some 2000000, None]"
proof -
  have l: "parsed (lines_read (scripted [''time=00:00:01.00'', ''time=00:00:02.00''] 0))
           = [1000000, 2000000]"
    by code_simp
  show ?thesis
    using ffmpeg_progress_calls [of record_sample
        "scripted [''time=00:00:01.00'', ''time=00:00:02.00''] 0" "recorder_of []"]
    by (simp add: l record_sample_def recorder_of_def)
qed

text \<open>
  C3, as stated, fails: the loop hands every parsed time to the callback as it comes
  and hands over \<open>None\<close>, not the duration, at the end. A child that writes the stamp of
  two seconds and then the stamp of one second makes the recorded elapsed values go
  backwards. With the callback of the driver bound to a duration of one second, the
  sample of two seconds, above the duration, is rendered; and the duration itself is
  rendered twice, for the stamp of one second and for the final \<open>None\<close>.
\<close>

theorem progress_samples_backwards:
  "world.more (fst (ffmpeg_progress record_sample
      (scripted [''time=00:00:02.00'', ''time=00:00:01.00''] 0) (recorder_of [])))
   = [Some 0, Some 2000000, Some 1000000, None]
   \<and> \<not> sorted (elapsed_values [Some 0, Some 2000000, Some 1000000, None])
   \<and> terminal (fst (ffmpeg_progress (print_progress (Some 1000000))
         (scripted [''time=00:00:02.00'', ''time=00:00:01.00''] 0) (world_of {} [])))
     = [EncodingPercent 0 1000000, EncodingPercent 2000000 1000000,
        EncodingPercent 1000000 1000000, LineBreak,
        EncodingPercent 1000000 1000000, LineBreak]
   \<and> (1000000 :: timedelta) < 2000000"
  by code_simp

text \<open>
  C3, amended. Whatever the child writes, the samples handed to the callback are
  exactly these, in this order: the zero duration, the times parsed from the lines that
  the loop reads, unchanged and in the order read, and one \<open>None\<close>, which is the last; a
  call that raises ends the sequence there, and a recording callback records exactly
  that list. The times of the lines read are a prefix of the times that the child
  writes. So the elapsed values are in non-decreasing order whenever the times that the
  child writes are, and none is above a duration \<open>d\<close> that is not negative whenever no
  time that the child writes is. The completion marker is the sample \<open>None\<close>; the
  renderer of the driver, bound to a duration \<open>d\<close> other than zero, prints it as \<open>d\<close>
  out of \<open>d\<close> and a line break.
\<close>

theorem progress_samples_monotone:
  "ffmpeg_progress progress_cb p w =
     (case deliver progress_cb (Some 0 # map Some (parsed (lines_read p)) @ [None]) w of
        (w', Inl e) \<Rightarrow> (w', Inl e)
      | (w', Inr u) \<Rightarrow> (w', Inr (run_out p, ())))
   \<and> world.more (fst (ffmpeg_progress record_sample p r))
       = world.more r @ Some 0 # map Some (parsed (lines_read p)) @ [None]
   \<and> prefix (parsed (lines_read p)) (parsed (stderr p))
   \<and> (sorted (parsed (stderr p)) \<longrightarrow> sorted (0 # parsed (lines_read p)))
   \<and> (0 \<le> d \<and> (\<forall>t\<in>set (parsed (stderr p)). t \<le> d)
        \<longrightarrow> (\<forall>t\<in>set (0 # parsed (lines_read p)). t \<le> d))
   \<and> (d \<noteq> 0 \<longrightarrow>
        print_progress (Some d) None v
          = (v\<lparr>terminal := terminal v @ [EncodingPercent d d, LineBreak]\<rparr>, Inr ()))"
proof -
  let ?ps = "parsed (lines_read p)"
  obtain rest where r: "parsed (stderr p) = ?ps @ rest"
    using parsed_lines_read_prefix [of p] by (auto simp: prefix_def)
  have n: "\<forall>t\<in>set ?ps. 0 \<le> t" using parsed_nonneg by blast
  have s: "sorted (parsed (stderr p)) \<longrightarrow> sorted (0 # ?ps)"
    using n unfolding r by (simp add: sorted_append)
  have b: "0 \<le> d \<and> (\<forall>t\<in>set (parsed (stderr p)). t \<le> d) \<longrightarrow> (\<forall>t\<in>set (0 # ?ps). t \<le> d)"
    unfolding r by simp
  have m: "d \<noteq> 0 \<longrightarrow>
        print_progress (Some d) None v
          = (v\<lparr>terminal := terminal v @ [EncodingPercent d d, LineBreak]\<rparr>, Inr ())"
    by (simp add: print_progress_def)
  have c: "world.more (fst (ffmpeg_progress record_sample p r))
       = world.more r @ Some 0 # map Some ?ps @ [None]"
    by (simp add: progress_recorded)
  show ?thesis
    using ffmpeg_progress_deliver [of progress_cb p w] c parsed_lines_read_prefix [of p] s b m
    by (intro conjI)
qed

theorem progress_samples_monotone_witness:
  "world.more (fst (ffmpeg_progress record_sample
        (scripted [''time=00:00:01.00'', ''time=00:00:02.00''] 0) (recorder_of [])))
     = [Some 0, Some 1000000, Some 2000000, None]
   \<and> sorted (0 # parsed (lines_read (scripted [''time=00:00:01.00'', ''time=00:00:02.00''] 0)))
   \<and> sorted (parsed (stderr (scripted [''time=00:00:01.00'', ''time=00:00:02.00''] 0)))"
proof -
  let ?p = "scripted [''time=00:00:01.00'', ''time=00:00:02.00''] 0"
  have l: "parsed (lines_read ?p) = [1000000, 2000000]" by code_simp
  have st: "sorted (parsed (stderr ?p))" by code_simp
  have m: "world.more (recorder_of []) = []" by (simp add: recorder_of_def)
  note t = progress_samples_monotone [of record_sample ?p "recorder_of []" "recorder_of []"
      2000000 "world_of {} []"]
  from t have "world.more (fst (ffmpeg_progress record_sample ?p (recorder_of [])))
       = world.more (recorder_of []) @ Some 0 # map Some (parsed (lines_read ?p)) @ [None]"
    by (elim conjE)
  then have a: "world.more (fst (ffmpeg_progress record_sample ?p (recorder_of [])))
       = [Some 0, Some 1000000, Some 2000000, None]"
    by (simp add: l m)
  from t have "sorted (parsed (stderr ?p)) \<longrightarrow> sorted (0 # parsed (lines_read ?p))"
    by (elim conjE)
  then have b: "sorted (0 # parsed (lines_read ?p))" using st by (rule mp)
  show ?thesis using a b st by (intro conjI)
qed

section \<open>The allocation of the output file\<close>

lemma open_slots_all_taken:
  assumes "\<forall>i\<in>set idx. fmt pattern (int i) = Inr (slot i) \<and> slot i \<in> files w"
  shows "open_slots fmt pattern idx w = (w, Inl (FileExistsError pattern))"
  using assms by (induction idx) (simp_all add: open_xb_def)

lemma open_slots_first_free:
  assumes "\<forall>j\<in>set pre. fmt pattern (int j) = Inr (slot j) \<and> slot j \<in> files w"
      and "fmt pattern (int i) = Inr (slot i)" and "slot i \<notin> files w"
  shows "open_slots fmt pattern (pre @ i # post) w
           = (w\<lparr>files := insert (slot i) (files w)\<rparr>, Inr (File (slot i)))"
  using assms by (induction pre) (simp_all add: open_xb_def)

lemma open_slots_format_error:
  assumes "\<forall>j\<in>set pre. fmt pattern (int j) = Inr (slot j) \<and> slot j \<in> files w"
      and "fmt pattern (int i) = Inl e"
  shows "open_slots fmt pattern (pre @ i # post) w = (w, Inl e)"
  using assms by (induction pre) (simp_all add: open_xb_def)

lemma open_output_file_slot0:
  assumes "CHR ''{'' \<in> set pattern" and "fmt pattern 0 = Inr path" and "path \<notin> files w"
  shows "open_output_file fmt pattern w = (w\<lparr>files := insert path (files w)\<rparr>, Inr (File path))"
proof -
  obtain rest where u: "[0..<1000] = 0 # rest"
    using upt_conv_Cons [of 0 1000] by simp
  have "open_slots fmt pattern (0 # rest) w = (w\<lparr>files := insert path (files w)\<rparr>, Inr (File path))"
    using assms(2,3) by (simp add: open_xb_def)
  then show ?thesis
    unfolding open_output_file_def u using assms(1) by simp
qed

lemma open_output_file_format_error0:
  assumes "CHR ''{'' \<in> set pattern" and "fmt pattern 0 = Inl e"
  shows "open_output_file fmt pattern w = (w, Inl e)"
proof -
  obtain rest where u: "[0..<1000] = 0 # rest"
    using upt_conv_Cons [of 0 1000] by simp
  have "open_slots fmt pattern (0 # rest) w = (w, Inl e)"
    using assms(2) by simp
  then show ?thesis
    unfolding open_output_file_def u using assms(1) by simp
qed

text \<open>
  C8, as stated, fails: the test of the code is for an opening brace, not for a
  substitution placeholder. The argument \<open>out{{\<close> holds no placeholder, yet it is
  formatted: where the path \<open>out{{\<close> exists already, the call does not fail but creates
  the path \<open>out{\<close>. The argument \<open>out{\<close> holds none either: the call creates nothing and
  ends with the \<open>ValueError\<close> of the formatting.
\<close>

theorem open_output_file_formats_braces:
  "open_output_file str_format ''out{{'' (world_of {''out{{''} [])
     = (world_of {''out{'', ''out{{''} [], Inr (File ''out{''))
   \<and> open_output_file str_format ''out{'' (world_of {} [])
     = (world_of {} [], Inl ValueError)"
proof -
  have b1: "CHR ''{'' \<in> set ''out{{''" and b2: "CHR ''{'' \<in> set ''out{''" by simp_all
  have f1: "str_format ''out{{'' 0 = Inr ''out{''" by (simp add: str_format_def)
  have f2: "str_format ''out{'' 0 = Inl ValueError" by (simp add: str_format_def)
  have n: "''out{'' \<notin> files (world_of {''out{{''} [])" by (simp add: world_of_def)
  show ?thesis
    using open_output_file_slot0 [of "''out{{''" str_format "''out{''"
            "world_of {''out{{''} []", OF b1 f1 n]
          open_output_file_format_error0 [of "''out{''" str_format ValueError
            "world_of {} []", OF b2 f2]
    by (simp add: world_of_def)
qed

text \<open>
  C8, amended. An argument without an opening brace is opened as it is, for exclusive
  creation: the call fails with \<open>FileExistsError\<close> when the path exists and creates it
  otherwise. An argument with an opening brace is formatted with the indexes from 0 on:
  where the formatting gives the paths \<open>slot 0\<close>, ..., \<open>slot 999\<close>, the call creates and
  returns the slot of smallest index that does not exist, and raises \<open>FileExistsError\<close>
  on the argument when all thousand exist; where the formatting of the index 0 raises,
  that error propagates and nothing is created.
\<close>

theorem open_output_file_allocates:
  "(CHR ''{'' \<notin> set pattern \<longrightarrow>
      open_output_file fmt pattern w =
        (if pattern \<in> files w then (w, Inl (FileExistsError pattern))
         else (w\<lparr>files := insert pattern (files w)\<rparr>, Inr (File pattern))))
   \<and> (CHR ''{'' \<in> set pattern \<and> (\<forall>i<1000. fmt pattern (int i) = Inr (slot i)) \<longrightarrow>
        ((\<forall>i<1000. slot i \<in> files w) \<longrightarrow>
           open_output_file fmt pattern w = (w, Inl (FileExistsError pattern)))
      \<and> (\<forall>i<1000. slot i \<notin> files w \<and> (\<forall>j<i. slot j \<in> files w) \<longrightarrow>
           open_output_file fmt pattern w =
             (w\<lparr>files := insert (slot i) (files w)\<rparr>, Inr (File (slot i)))))
   \<and> (CHR ''{'' \<in> set pattern \<and> fmt pattern 0 = Inl e \<longrightarrow>
        open_output_file fmt pattern w = (w, Inl e))"
proof (intro conjI impI allI)
  assume "CHR ''{'' \<notin> set pattern"
  then show "open_output_file fmt pattern w =
        (if pattern \<in> files w then (w, Inl (FileExistsError pattern))
         else (w\<lparr>files := insert pattern (files w)\<rparr>, Inr (File pattern)))"
    by (simp add: open_output_file_def open_xb_def)
next
  assume a: "CHR ''{'' \<in> set pattern \<and> (\<forall>i<1000. fmt pattern (int i) = Inr (slot i))"
     and t: "\<forall>i<1000. slot i \<in> files w"
  have "open_slots fmt pattern [0..<1000] w = (w, Inl (FileExistsError pattern))"
    by (rule open_slots_all_taken [where slot = slot]) (use a t in auto)
  then show "open_output_file fmt pattern w = (w, Inl (FileExistsError pattern))"
    using a by (simp add: open_output_file_def)
next
  fix i :: nat
  assume a: "CHR ''{'' \<in> set pattern \<and> (\<forall>i<1000. fmt pattern (int i) = Inr (slot i))"
     and i: "i < 1000" and f: "slot i \<notin> files w \<and> (\<forall>j<i. slot j \<in> files w)"
  have u: "[0..<1000] = [0..<i] @ i # [Suc i..<1000]"
    using i by (metis le_add1 less_imp_add_positive plus_nat.add_0 upt_add_eq_append upt_conv_Cons)
  have "open_slots fmt pattern ([0..<i] @ i # [Suc i..<1000]) w
          = (w\<lparr>files := insert (slot i) (files w)\<rparr>, Inr (File (slot i)))"
    by (rule open_slots_first_free) (use a i f in auto)
  then show "open_output_file fmt pattern w =
             (w\<lparr>files := insert (slot i) (files w)\<rparr>, Inr (File (slot i)))"
    using a u by (simp add: open_output_file_def)
next
  assume "CHR ''{'' \<in> set pattern \<and> fmt pattern 0 = Inl e"
  then show "open_output_file fmt pattern w = (w, Inl e)"
    by (simp add: open_output_file_format_error0)
qed

lemma str_format_out: "str_format ''out-{}.ogv'' a = Inr (''out-'' @ str a @ ''.ogv'')"
  by (simp add: str_format_def)

lemma str_small: "str 0 = ''0''" "str 1 = ''1''" "str 2 = ''2''" "str 3 = ''3''"
  by (simp_all add: str_def str_nat.simps)

theorem open_output_file_allocates_witness:
  "open_output_file str_format ''out-{}.ogv'' (world_of {''out-0.ogv'', ''out-1.ogv'', ''out-2.ogv''} [])
     = ((world_of {''out-0.ogv'', ''out-1.ogv'', ''out-2.ogv''} [])
          \<lparr>files := {''out-3.ogv'', ''out-0.ogv'', ''out-1.ogv'', ''out-2.ogv''}\<rparr>,
        Inr (File ''out-3.ogv''))
   \<and> open_output_file str_format ''out.ogv'' (world_of {''out.ogv''} [])
     = (world_of {''out.ogv''} [], Inl (FileExistsError ''out.ogv''))
   \<and> open_output_file str_format ''out{{'' (world_of {''out{''} [])
     = (world_of {''out{''} [], Inl (FileExistsError ''out{{''))"
proof -
  let ?w = "world_of {''out-0.ogv'', ''out-1.ogv'', ''out-2.ogv''} []"
  let ?slot = "\<lambda>i. ''out-'' @ str (int i) @ ''.ogv''"
  have taken: "\<forall>j<3. ?slot j \<in> files ?w"
  proof (intro allI impI)
    fix j :: nat assume "j < 3"
    then have "j = 0 \<or> j = 1 \<or> j = 2" by arith
    then show "?slot j \<in> files ?w" by (auto simp: str_small world_of_def)
  qed
  have free: "?slot 3 \<notin> files ?w" by (simp add: str_small world_of_def)
  have fmt: "\<forall>i<1000. str_format ''out-{}.ogv'' (int i) = Inr (?slot i)"
    by (simp add: str_format_out)
  have br: "CHR ''{'' \<in> set ''out-{}.ogv''" by simp
  have nb: "CHR ''{'' \<notin> set ''out.ogv''" by simp
  have step: "\<forall>i<1000. ?slot i \<notin> files ?w \<and> (\<forall>j<i. ?slot j \<in> files ?w) \<longrightarrow>
           open_output_file str_format ''out-{}.ogv'' ?w =
             (?w\<lparr>files := insert (?slot i) (files ?w)\<rparr>, Inr (File (?slot i)))"
    using open_output_file_allocates [of "''out-{}.ogv''" str_format ?w ?slot] br fmt
    by blast
  have "(3::nat) < 1000 \<longrightarrow> ?slot 3 \<notin> files ?w \<and> (\<forall>j<3. ?slot j \<in> files ?w) \<longrightarrow>
           open_output_file str_format ''out-{}.ogv'' ?w =
             (?w\<lparr>files := insert (?slot 3) (files ?w)\<rparr>, Inr (File (?slot 3)))"
    using step by (rule spec)
  then have one: "open_output_file str_format ''out-{}.ogv'' ?w
               = (?w\<lparr>files := insert (?slot 3) (files ?w)\<rparr>, Inr (File (?slot 3)))"
    using taken free by simp
  have two: "open_output_file str_format ''out.ogv'' (world_of {''out.ogv''} [])
     = (world_of {''out.ogv''} [], Inl (FileExistsError ''out.ogv''))"
    using open_output_file_allocates [of "''out.ogv''" str_format "world_of {''out.ogv''} []" ?slot] nb
    by (simp add: world_of_def)
  have br3: "CHR ''{'' \<in> set ''out{{''" by simp
  have fmt3: "\<forall>i<1000. str_format ''out{{'' (int i) = Inr ((\<lambda>i. ''out{'') i)"
    by (simp add: str_format_def)
  have taken3: "\<forall>i<1000. (\<lambda>i. ''out{'') i \<in> files (world_of {''out{''} [])"
    by (simp add: world_of_def)
  have three: "open_output_file str_format ''out{{'' (world_of {''out{''} [])
     = (world_of {''out{''} [], Inl (FileExistsError ''out{{''))"
    using open_output_file_allocates [of "''out{{''" str_format "world_of {''out{''} []"
            "\<lambda>i. ''out{''"] br3 fmt3 taken3
    by blast
  show ?thesis using one two three by (simp add: str_small world_of_def)
qed

section \<open>The driver, step by step\<close>

lemma get_cachedir_result:
  "get_cachedir cfg env w =
     (if cachedir_path cfg env \<in> files w
      then (w, Inl (FileExistsError (cachedir_path cfg env)))
      else (w\<lparr>files := insert (cachedir_path cfg env) (files w)\<rparr>, Inr (cachedir_path cfg env)))"
  by (simp add: get_cachedir_def cachedir_path_def makedirs_def Let_def)

lemma open_slots_result:
  "open_slots fmt pattern idx w = (w', r) \<Longrightarrow>
     (case r of Inl e \<Rightarrow> w' = w
      | Inr d \<Rightarrow> name d \<notin> files w \<and> w' = w\<lparr>files := insert (name d) (files w)\<rparr>)"
  by (induction idx) (auto simp: open_xb_def split: sum.splits if_splits)

lemma open_output_file_result:
  "open_output_file fmt pattern w = (w', r) \<Longrightarrow>
     (case r of Inl e \<Rightarrow> w' = w
      | Inr d \<Rightarrow> name d \<notin> files w \<and> w' = w\<lparr>files := insert (name d) (files w)\<rparr>)"
  using open_slots_result [of fmt pattern "[0..<1000]" w w' r]
  by (auto simp: open_output_file_def open_xb_def split: if_splits)

lemma record_stage_world:
  assumes "record_stage cf fr disp geo w = (w', r)"
  shows "files w \<subseteq> files w'
       \<and> (\<forall>l\<in>set (launched w'). l \<in> set (launched w) \<or> to_stderr l = PIPE)"
proof (cases "children w")
  case Nil
  then show ?thesis using assms by (simp add: record_stage_no_child)
next
  case (Cons c cs)
  then show ?thesis using assms by (auto simp: record_stage_run)
qed

lemma deliver_print_progress:
  "deliver (print_progress d) xs w = (w', r) \<Longrightarrow> \<exists>t. w' = w\<lparr>terminal := t\<rparr>"
proof (induction xs arbitrary: w)
  case Nil
  then have "w' = w\<lparr>terminal := terminal w\<rparr>" by simp
  then show ?case by blast
next
  case (Cons x xs)
  obtain w1 r1 where p: "print_progress d x w = (w1, r1)" by (cases "print_progress d x w")
  then have w1: "\<exists>t. w1 = w\<lparr>terminal := t\<rparr>"
    by (auto simp: print_progress_def Let_def split: option.splits if_splits
             intro: exI [of _ "terminal w"])
  show ?case
  proof (cases r1)
    case (Inl e)
    then show ?thesis using Cons.prems p w1 by auto
  next
    case (Inr u)
    then have "deliver (print_progress d) xs w1 = (w', r)" using Cons.prems p by simp
    from Cons.IH [OF this] w1 show ?thesis by auto
  qed
qed

lemma encode_print_world:
  assumes "encode src out sec (Some (print_progress d)) w = (w', r)"
  shows "files w \<subseteq> files w'
       \<and> (\<forall>l\<in>set (launched w'). l \<in> set (launched w) \<or> to_stderr l = PIPE)"
proof (cases "children w")
  case Nil
  then show ?thesis
    using assms by (simp add: encode_def run_with_signal_forwarding_def Popen_def)
next
  case (Cons c cs)
  let ?w1 = "w\<lparr>children := cs,
       launched := launched w
         @ [\<lparr>command = encode_call src sec, to_stdout = ToFile (name out), to_stderr = PIPE\<rparr>],
       files := files w \<union> set (creates c),
       sigint := term_handler, sigterm := term_handler\<rparr>"
  obtain w2 r2 where d: "deliver (print_progress d)
        (Some 0 # map Some (parsed (lines_read c)) @ [None]) ?w1 = (w2, r2)"
    by (metis surj_pair)
  from deliver_print_progress [OF d] obtain t where w2: "w2 = ?w1\<lparr>terminal := t\<rparr>" by blast
  have "w' = w2\<lparr>sigint := SIG_DFL, sigterm := SIG_DFL\<rparr>"
    using assms Cons d by (cases r2) (simp_all add: encode_run_callback)
  then show ?thesis using w2 by auto
qed

lemma main_steps:
  "get_cachedir cfg env w = (w1, Inl e) \<Longrightarrow> main fmt a cfg env w = (w1, Inl e)"
  "\<lbrakk>get_cachedir cfg env w = (w1, Inr cd);
    open_output_file fmt (expanduser (env_home env) (config_output cfg)) w1 = (w2, Inl e)\<rbrakk>
   \<Longrightarrow> main fmt a cfg env w = (w2, Inl e)"
  "\<lbrakk>get_cachedir cfg env w = (w1, Inr cd);
    open_output_file fmt (expanduser (env_home env) (config_output cfg)) w1 = (w2, Inr dest);
    record_stage (path_join cd INITIAL_FILE_NAME) (args_framerate a) (env_display env)
      (env_geometry env) w2 = (w3, Inl e)\<rbrakk>
   \<Longrightarrow> main fmt a cfg env w =
        (case unlink (name dest) w3 of (w4, Inl e') \<Rightarrow> (w4, Inl e') | (w4, Inr u) \<Rightarrow> (w4, Inl e))"
  "\<lbrakk>get_cachedir cfg env w = (w1, Inr cd);
    open_output_file fmt (expanduser (env_home env) (config_output cfg)) w1 = (w2, Inr dest);
    record_stage (path_join cd INITIAL_FILE_NAME) (args_framerate a) (env_display env)
      (env_geometry env) w2 = (w3, Inr duration);
    encode_section cfg = None\<rbrakk>
   \<Longrightarrow> main fmt a cfg env w = (w3, Inl (KeyError ''encode''))"
  "\<lbrakk>get_cachedir cfg env w = (w1, Inr cd);
    open_output_file fmt (expanduser (env_home env) (config_output cfg)) w1 = (w2, Inr dest);
    record_stage (path_join cd INITIAL_FILE_NAME) (args_framerate a) (env_display env)
      (env_geometry env) w2 = (w3, Inr duration);
    encode_section cfg = Some sec; \<not> args_progress a\<rbrakk>
   \<Longrightarrow> main fmt a cfg env w = (w3, Inl TypeError)"
  "\<lbrakk>get_cachedir cfg env w = (w1, Inr cd);
    open_output_file fmt (expanduser (env_home env) (config_output cfg)) w1 = (w2, Inr dest);
    record_stage (path_join cd INITIAL_FILE_NAME) (args_framerate a) (env_display env)
      (env_geometry env) w2 = (w3, Inr duration);
    encode_section cfg = Some sec; args_progress a\<rbrakk>
   \<Longrightarrow> main fmt a cfg env w =
        (case encode (path_join cd INITIAL_FILE_NAME) dest sec (Some (print_progress duration)) w3 of
           (w4, Inl e) \<Rightarrow> (w4, Inl e)
         | (w4, Inr u) \<Rightarrow> rmtree cd w4)"
  by (simp_all add: main_def Let_def functools_partial_def)

lemma main_launched:
  "\<forall>l\<in>set (launched (fst (main fmt a cfg env w))). l \<in> set (launched w) \<or> to_stderr l = PIPE"
proof -
  obtain w1 r1 where g: "get_cachedir cfg env w = (w1, r1)" by (metis surj_pair)
  then have l1: "launched w1 = launched w"
    by (auto simp: get_cachedir_result split: if_splits)
  show ?thesis
  proof (cases r1)
    case (Inl e)
    from main_steps(1) [OF g [unfolded Inl]] show ?thesis using l1 by simp
  next
    case (Inr cd)
    note g' = g [unfolded Inr]
    obtain w2 r2 where o: "open_output_file fmt (expanduser (env_home env) (config_output cfg)) w1 = (w2, r2)"
      by (metis surj_pair)
    from open_output_file_result [OF o] have l2: "launched w2 = launched w"
      using l1 by (cases r2) auto
    show ?thesis
    proof (cases r2)
      case (Inl e)
      from main_steps(2) [OF g' o [unfolded Inl]] show ?thesis using l2 by simp
    next
      case (Inr dest)
      note o' = o [unfolded Inr]
      obtain w3 r3 where r: "record_stage (path_join cd INITIAL_FILE_NAME) (args_framerate a)
          (env_display env) (env_geometry env) w2 = (w3, r3)"
        by (metis surj_pair)
      from record_stage_world [OF r]
      have l3: "\<forall>l\<in>set (launched w3). l \<in> set (launched w) \<or> to_stderr l = PIPE"
        using l2 by simp
      show ?thesis
      proof (cases r3)
        case (Inl e)
        have "launched (fst (main fmt a cfg env w)) = launched w3"
          using main_steps(3) [OF g' o' r [unfolded Inl]]
          by (auto simp: unlink_def split: if_splits)
        then show ?thesis using l3 by simp
      next
        case (Inr duration)
        note r' = r [unfolded Inr]
        show ?thesis
        proof (cases "encode_section cfg")
          case None
          from main_steps(4) [OF g' o' r' None] show ?thesis using l3 by simp
        next
          case (Some sec)
          show ?thesis
          proof (cases "args_progress a")
            case False
            from main_steps(5) [OF g' o' r' Some False] show ?thesis using l3 by simp
          next
            case True
            note m = main_steps(6) [OF g' o' r' Some True]
            obtain w4 r4 where e: "encode (path_join cd INITIAL_FILE_NAME) dest sec
                (Some (print_progress duration)) w3 = (w4, r4)"
              by (metis surj_pair)
            from encode_print_world [OF e]
            have l4: "\<forall>l\<in>set (launched w4). l \<in> set (launched w) \<or> to_stderr l = PIPE"
              using l3 by blast
            have "launched (fst (main fmt a cfg env w)) = launched w4"
              using m e by (cases r4) (auto simp: rmtree_def split: if_splits)
            then show ?thesis using l4 by simp
          qed
        qed
      qed
    qed
  qed
qed

section \<open>The example runs of the driver\<close>

lemma example_paths:
  "cachedir_path example_config example_environ = ''/c/t''"
  "path_join ''/c/t'' INITIAL_FILE_NAME = ''/c/t/first.mkv''"
  "expanduser (env_home example_environ) (config_output example_config) = ''/h/out-{}.ogv''"
  by code_simp+

lemma example_fields:
  "encode_section example_config = Some [(''-c:v'', ''libtheora'')]"
  "env_display example_environ = '':0''"
  "env_geometry example_environ = (0, 0, 640, 480)"
  by (simp_all add: example_config_def example_environ_def)

lemma example_get_cachedir:
  "get_cachedir example_config example_environ (world_of {} cs)
     = (world_of {''/c/t''} cs, Inr ''/c/t'')"
  by (simp add: get_cachedir_result example_paths world_of_def)

lemma example_open:
  "open_output_file str_format ''/h/out-{}.ogv'' (world_of {''/c/t''} cs)
     = (world_of {''/h/out-0.ogv'', ''/c/t''} cs, Inr (File ''/h/out-0.ogv''))"
proof -
  have f: "str_format ''/h/out-{}.ogv'' 0 = Inr ''/h/out-0.ogv''"
    by (simp add: str_format_def str_def str_nat.simps)
  have b: "CHR ''{'' \<in> set ''/h/out-{}.ogv''" by simp
  have n: "''/h/out-0.ogv'' \<notin> files (world_of {''/c/t''} cs)" by (simp add: world_of_def)
  show ?thesis
    using open_output_file_slot0 [of "''/h/out-{}.ogv''" str_format "''/h/out-0.ogv''"
            "world_of {''/c/t''} cs", OF b f n]
    by (simp add: world_of_def)
qed

lemma child_facts:
  "exit_status (capture_child 0) = 0" "exit_status (capture_child 1) = 1"
  "exit_status (encode_child 0) = 0" "exit_status (encode_child 1) = 1"
  "last_duration (lines_read (capture_child 0)) = Some 2000000"
  "parsed (lines_read (encode_child 0)) = [1000000, 2000000]"
  "parsed (lines_read (encode_child 1)) = [1000000, 2000000]"
  "creates (capture_child 0) = [''/c/t/first.mkv'']"
  "creates (capture_child 1) = [''/c/t/first.mkv'']"
  "creates (encode_child 0) = []" "creates (encode_child 1) = []"
  by code_simp+

lemma example_record_fails:
  "record_stage ''/c/t/first.mkv'' 25 '':0'' (0, 0, 640, 480)
     (world_of {''/h/out-0.ogv'', ''/c/t''} (capture_child 1 # cs))
   = ((world_of {''/c/t/first.mkv'', ''/h/out-0.ogv'', ''/c/t''} cs)\<lparr>launched := [capture_launch]\<rparr>,
      Inl (CalledProcessError (Some 1) (record_call ''/c/t/first.mkv'' 25 '':0'' (0, 0, 640, 480))))"
proof -
  have c: "children (world_of {''/h/out-0.ogv'', ''/c/t''} (capture_child 1 # cs)) = capture_child 1 # cs"
    by (simp add: world_of_def)
  show ?thesis
    unfolding record_stage_run [OF c]
    by (simp add: child_facts world_of_def capture_launch_def insert_commute)
qed

lemma example_record_ok:
  "record_stage ''/c/t/first.mkv'' 25 '':0'' (0, 0, 640, 480)
     (world_of {''/h/out-0.ogv'', ''/c/t''} (capture_child 0 # cs))
   = ((world_of {''/c/t/first.mkv'', ''/h/out-0.ogv'', ''/c/t''} cs)\<lparr>launched := [capture_launch]\<rparr>,
      Inr (Some 2000000))"
proof -
  have c: "children (world_of {''/h/out-0.ogv'', ''/c/t''} (capture_child 0 # cs)) = capture_child 0 # cs"
    by (simp add: world_of_def)
  show ?thesis
    unfolding record_stage_run [OF c]
    by (simp add: child_facts world_of_def capture_launch_def insert_commute)
qed

lemma example_encode:
  "encode ''/c/t/first.mkv'' (File ''/h/out-0.ogv'') [(''-c:v'', ''libtheora'')]
     (Some (print_progress (Some 2000000)))
     ((world_of {''/c/t/first.mkv'', ''/h/out-0.ogv'', ''/c/t''} [encode_child rc])
        \<lparr>launched := [capture_launch]\<rparr>)
   = ((world_of {''/c/t/first.mkv'', ''/h/out-0.ogv'', ''/c/t''} [])
        \<lparr>launched := [capture_launch, encode_launch], terminal := example_terminal\<rparr>,
      if rc = 0 then Inr ()
      else Inl (CalledProcessError (Some rc)
                  (encode_call ''/c/t/first.mkv'' [(''-c:v'', ''libtheora'')])))"
proof -
  let ?w = "(world_of {''/c/t/first.mkv'', ''/h/out-0.ogv'', ''/c/t''} [encode_child rc])
        \<lparr>launched := [capture_launch]\<rparr>"
  have c: "children ?w = encode_child rc # []" by (simp add: world_of_def)
  have l: "parsed (lines_read (encode_child rc)) = [1000000, 2000000]"
  proof -
    have "lines_read (encode_child rc) = [''time=00:00:01.00'', ''time=00:00:02.00'']"
      by (simp add: encode_child_def scripted_def lines_read.simps readline_def poll_def)
    moreover have "parsed [''time=00:00:01.00'', ''time=00:00:02.00''] = [1000000, 2000000]"
      by code_simp
    ultimately show ?thesis by simp
  qed
  have x: "exit_status (encode_child rc) = rc"
    by (simp add: encode_child_def scripted_def exit_status_def)
  have k: "creates (encode_child rc) = []" by (simp add: encode_child_def scripted_def)
  show ?thesis
    unfolding encode_run_callback [OF c] l x k
    by (simp add: print_progress_def world_of_def encode_launch_def example_terminal_def)
qed

lemma example_main_steps:
  fixes a :: args
  assumes "args_framerate a = 25"
  shows "get_cachedir example_config example_environ (world_of {} cs)
           = (world_of {''/c/t''} cs, Inr ''/c/t'')"
    and "open_output_file str_format
           (expanduser (env_home example_environ) (config_output example_config))
           (world_of {''/c/t''} cs)
         = (world_of {''/h/out-0.ogv'', ''/c/t''} cs, Inr (File ''/h/out-0.ogv''))"
    and "record_stage (path_join ''/c/t'' INITIAL_FILE_NAME) (args_framerate a)
           (env_display example_environ) (env_geometry example_environ)
           (world_of {''/h/out-0.ogv'', ''/c/t''} (capture_child 1 # cs'))
         = ((world_of {''/c/t/first.mkv'', ''/h/out-0.ogv'', ''/c/t''} cs')
              \<lparr>launched := [capture_launch]\<rparr>,
            Inl (CalledProcessError (Some 1)
                   (record_call ''/c/t/first.mkv'' 25 '':0'' (0, 0, 640, 480))))"
    and "record_stage (path_join ''/c/t'' INITIAL_FILE_NAME) (args_framerate a)
           (env_display example_environ) (env_geometry example_environ)
           (world_of {''/h/out-0.ogv'', ''/c/t''} (capture_child 0 # cs'))
         = ((world_of {''/c/t/first.mkv'', ''/h/out-0.ogv'', ''/c/t''} cs')
              \<lparr>launched := [capture_launch]\<rparr>,
            Inr (Some 2000000))"
  unfolding example_paths example_fields assms
  by (rule example_get_cachedir example_open example_record_fails example_record_ok)+

lemma example_run_capture_fails:
  "example_run True 1 0 =
     ((world_of {''/c/t/first.mkv'', ''/c/t''} [encode_child 0])\<lparr>launched := [capture_launch]\<rparr>,
      Inl (CalledProcessError (Some 1) (record_call ''/c/t/first.mkv'' 25 '':0'' (0, 0, 640, 480))))"
proof -
  let ?a = "\<lparr>args_progress = True, args_framerate = 25\<rparr>"
  have f: "args_framerate ?a = 25" by simp
  show ?thesis
    unfolding example_run_def
      main_steps(3) [OF example_main_steps(1) [OF f] example_main_steps(2) [OF f]
        example_main_steps(3) [OF f]]
    by (auto simp: unlink_def world_of_def)
qed

lemma example_run_encode:
  "example_run True 0 rc =
     (if rc = 0
      then ((world_of {''/h/out-0.ogv''} [])
              \<lparr>launched := [capture_launch, encode_launch], terminal := example_terminal\<rparr>,
            Inr ())
      else ((world_of {''/c/t/first.mkv'', ''/h/out-0.ogv'', ''/c/t''} [])
              \<lparr>launched := [capture_launch, encode_launch], terminal := example_terminal\<rparr>,
            Inl (CalledProcessError (Some rc)
                   (encode_call ''/c/t/first.mkv'' [(''-c:v'', ''libtheora'')]))))"
proof -
  let ?a = "\<lparr>args_progress = True, args_framerate = 25\<rparr>"
  have f: "args_framerate ?a = 25" and p: "args_progress ?a" by simp_all
  have u: "{path. (path = ''/c/t/first.mkv'' \<or> path = ''/h/out-0.ogv'' \<or> path = ''/c/t'')
                  \<and> \<not> is_under ''/c/t'' path} = {''/h/out-0.ogv''}"
    by (auto simp: is_under_def)
  show ?thesis
    unfolding example_run_def
      main_steps(6) [OF example_main_steps(1) [OF f] example_main_steps(2) [OF f]
        example_main_steps(4) [OF f] example_fields(1) p]
      example_paths example_encode
    by (simp add: rmtree_def world_of_def u)
qed

lemma example_run_no_progress:
  "example_run False 0 0 =
     ((world_of {''/c/t/first.mkv'', ''/h/out-0.ogv'', ''/c/t''} [encode_child 0])
        \<lparr>launched := [capture_launch]\<rparr>,
      Inl TypeError)"
proof -
  let ?a = "\<lparr>args_progress = False, args_framerate = 25\<rparr>"
  have f: "args_framerate ?a = 25" and p: "\<not> args_progress ?a" by simp_all
  show ?thesis
    unfolding example_run_def
    by (rule main_steps(5) [OF example_main_steps(1) [OF f] example_main_steps(2) [OF f]
        example_main_steps(4) [OF f] example_fields(1) p])
qed

section \<open>The driver: removal of the cache directory\<close>

text \<open>
  C1, as stated, fails: when the capture child exits with the code 1, and when the
  encode child does, the driver ends with \<open>CalledProcessError\<close> and the cache directory
  is still there.
\<close>

theorem main_keeps_cachedir_on_failure:
  "snd (example_run True 1 0)
     = Inl (CalledProcessError (Some 1) (record_call ''/c/t/first.mkv'' 25 '':0'' (0, 0, 640, 480)))
   \<and> ''/c/t'' \<in> files (fst (example_run True 1 0))
   \<and> snd (example_run True 0 1)
     = Inl (CalledProcessError (Some 1) (encode_call ''/c/t/first.mkv'' [(''-c:v'', ''libtheora'')]))
   \<and> ''/c/t'' \<in> files (fst (example_run True 0 1))
   \<and> ''/c/t/first.mkv'' \<in> files (fst (example_run True 0 1))"
  by (simp add: example_run_capture_fails example_run_encode world_of_def)

text \<open>
  C1, amended. The cache directory is removed exactly when the driver ends without an
  error: after a run that succeeds, no path at or under the cache directory exists; after
  a run that ends with an error, that of the capture stage and that of the encode stage
  among them, the cache directory still exists. The call of \<open>shutil.rmtree\<close> is the last
  statement of the script and is reached on success only.
\<close>

theorem main_removes_cachedir_on_success_only:
  "(snd (main fmt a cfg env w) = Inr () \<longrightarrow>
      (\<forall>p\<in>files (fst (main fmt a cfg env w)). \<not> is_under (cachedir_path cfg env) p))
   \<and> (snd (main fmt a cfg env w) \<noteq> Inr () \<longrightarrow>
      cachedir_path cfg env \<in> files (fst (main fmt a cfg env w)))"
proof (cases "cachedir_path cfg env \<in> files w")
  case True
  then have "get_cachedir cfg env w = (w, Inl (FileExistsError (cachedir_path cfg env)))"
    by (simp add: get_cachedir_result)
  from main_steps(1) [OF this] show ?thesis using True by simp
next
  case False
  let ?cd = "cachedir_path cfg env"
  let ?w1 = "w\<lparr>files := insert ?cd (files w)\<rparr>"
  have g: "get_cachedir cfg env w = (?w1, Inr ?cd)"
    using False by (simp add: get_cachedir_result)
  obtain w2 r2 where o: "open_output_file fmt (expanduser (env_home env) (config_output cfg)) ?w1 = (w2, r2)"
    by (metis surj_pair)
  show ?thesis
  proof (cases r2)
    case (Inl e)
    with open_output_file_result [OF o] have "w2 = ?w1" by simp
    with main_steps(2) [OF g o [unfolded Inl]] show ?thesis by simp
  next
    case (Inr dest)
    with open_output_file_result [OF o]
    have d: "name dest \<notin> files ?w1" and w2: "w2 = ?w1\<lparr>files := insert (name dest) (files ?w1)\<rparr>"
      by simp_all
    have ne: "name dest \<noteq> ?cd" using d by auto
    obtain w3 r3 where r: "record_stage (path_join ?cd INITIAL_FILE_NAME) (args_framerate a)
        (env_display env) (env_geometry env) w2 = (w3, r3)"
      by (metis surj_pair)
    from record_stage_world [OF r] have sub3: "files w2 \<subseteq> files w3" by simp
    have cd3: "?cd \<in> files w3" and dest3: "name dest \<in> files w3"
      using sub3 w2 by auto
    show ?thesis
    proof (cases r3)
      case (Inl e)
      have "main fmt a cfg env w = (w3\<lparr>files := files w3 - {name dest}\<rparr>, Inl e)"
        using main_steps(3) [OF g o [unfolded Inr] r [unfolded Inl]] dest3
        by (simp add: unlink_def)
      then show ?thesis using cd3 ne by simp
    next
      case (Inr duration)
      note r' = r [unfolded Inr]
      show ?thesis
      proof (cases "encode_section cfg")
        case None
        from main_steps(4) [OF g o [unfolded \<open>r2 = Inr dest\<close>] r' None]
        show ?thesis using cd3 by simp
      next
        case (Some sec)
        show ?thesis
        proof (cases "args_progress a")
          case False
          from main_steps(5) [OF g o [unfolded \<open>r2 = Inr dest\<close>] r' Some False]
          show ?thesis using cd3 by simp
        next
          case True
          note m = main_steps(6) [OF g o [unfolded \<open>r2 = Inr dest\<close>] r' Some True]
          obtain w4 r4 where e: "encode (path_join ?cd INITIAL_FILE_NAME) dest sec
              (Some (print_progress duration)) w3 = (w4, r4)"
            by (metis surj_pair)
          from encode_print_world [OF e] have cd4: "?cd \<in> files w4" using cd3 by auto
          show ?thesis
          proof (cases r4)
            case (Inl x)
            then show ?thesis using m e cd4 by simp
          next
            case (Inr u)
            then have "main fmt a cfg env w
                = (w4\<lparr>files := {p \<in> files w4. \<not> is_under ?cd p}\<rparr>, Inr ())"
              using m e cd4 by (simp add: rmtree_def)
            then show ?thesis by simp
          qed
        qed
      qed
    qed
  qed
qed

theorem main_removes_cachedir_on_success_only_witness:
  "snd (example_run True 0 0) = Inr ()
   \<and> ''/c/t'' \<notin> files (fst (example_run True 0 0))
   \<and> ''/c/t/first.mkv'' \<notin> files (fst (example_run True 0 0))"
proof -
  have s: "snd (example_run True 0 0) = Inr ()" by (simp add: example_run_encode)
  have u: "is_under ''/c/t'' ''/c/t''" "is_under ''/c/t'' ''/c/t/first.mkv''"
    by (simp_all add: is_under_def)
  have "\<forall>p\<in>files (fst (example_run True 0 0)). \<not> is_under ''/c/t'' p"
    using main_removes_cachedir_on_success_only [of str_format
        "\<lparr>args_progress = True, args_framerate = 25\<rparr>" example_config example_environ
        "world_of {} [capture_child 0, encode_child 0]"] s
    unfolding example_run_def example_paths by blast
  then show ?thesis using s u by blast
qed

section \<open>The driver: removal of the output file\<close>

text \<open>
  C2, as stated, fails: the \<open>try\<close> statement of the driver covers the capture stage
  only. When the encode child exits with the code 1 the error propagates and the output
  file is still there.
\<close>

theorem main_keeps_output_on_encode_failure:
  "snd (example_run True 0 1)
     = Inl (CalledProcessError (Some 1) (encode_call ''/c/t/first.mkv'' [(''-c:v'', ''libtheora'')]))
   \<and> ''/h/out-0.ogv'' \<in> files (fst (example_run True 0 1))"
  by (simp add: example_run_encode world_of_def)

text \<open>
  C2, amended. When the capture stage raises, whatever the error, the driver deletes the
  file of the output handle and then lets that same error out: the file does not exist
  in the world the driver leaves.
\<close>

theorem main_unlinks_output_on_capture_failure:
  assumes "get_cachedir cfg env w = (w1, Inr cachedir)"
      and "open_output_file fmt (expanduser (env_home env) (config_output cfg)) w1 = (w2, Inr dest)"
      and "record_stage (path_join cachedir INITIAL_FILE_NAME) (args_framerate a)
             (env_display env) (env_geometry env) w2 = (w3, Inl e)"
  shows "snd (main fmt a cfg env w) = Inl e \<and> name dest \<notin> files (fst (main fmt a cfg env w))"
proof -
  from open_output_file_result [OF assms(2)] have "name dest \<in> files w2" by auto
  with record_stage_world [OF assms(3)] have "name dest \<in> files w3" by auto
  then have "main fmt a cfg env w = (w3\<lparr>files := files w3 - {name dest}\<rparr>, Inl e)"
    using main_steps(3) [OF assms] by (simp add: unlink_def)
  then show ?thesis by simp
qed

theorem main_unlinks_output_on_capture_failure_witness:
  "snd (example_run True 1 0)
     = Inl (CalledProcessError (Some 1) (record_call ''/c/t/first.mkv'' 25 '':0'' (0, 0, 640, 480)))
   \<and> ''/h/out-0.ogv'' \<notin> files (fst (example_run True 1 0))"
proof -
  let ?a = "\<lparr>args_progress = True, args_framerate = 25\<rparr>"
  have f: "args_framerate ?a = 25" by simp
  show ?thesis
    using main_unlinks_output_on_capture_failure
      [OF example_main_steps(1) [OF f] example_main_steps(2) [OF f] example_main_steps(3) [OF f]]
    by (simp add: example_run_def)
qed

section \<open>The driver without progress output\<close>

text \<open>
  C10, as stated, fails: with progress output disabled no encode process is started. The
  only \<open>Popen\<close> call of the run is that of the capture stage, the encode child is still
  to come, nothing was printed, and the driver ends with the \<open>TypeError\<close> of the
  constructor of \<open>functools.partial\<close>.
\<close>

theorem main_without_progress_stops_before_encode:
  "snd (example_run False 0 0) = Inl TypeError
   \<and> launched (fst (example_run False 0 0)) = [capture_launch]
   \<and> children (fst (example_run False 0 0)) = [encode_child 0]
   \<and> terminal (fst (example_run False 0 0)) = []"
  by (simp add: example_run_no_progress world_of_def)

text \<open>
  C10, amended. With progress output disabled, once the capture stage has returned and
  the section \<open>encode\<close> was found, building \<open>functools.partial(None, duration)\<close> raises
  \<open>TypeError\<close>, and the driver ends in the world that the capture stage left: \<open>encode\<close> is
  not called. And in every run of the driver, every child it starts has its diagnostic
  stream piped: the branch of \<open>encode\<close> without a callback, which sends it to
  \<open>DEVNULL\<close>, is never taken.
\<close>

theorem main_without_progress_never_encodes:
  "(\<not> args_progress a \<and> encode_section cfg = Some sec
      \<and> get_cachedir cfg env w = (w1, Inr cachedir)
      \<and> open_output_file fmt (expanduser (env_home env) (config_output cfg)) w1 = (w2, Inr dest)
      \<and> record_stage (path_join cachedir INITIAL_FILE_NAME) (args_framerate a)
           (env_display env) (env_geometry env) w2 = (w3, Inr duration)
      \<longrightarrow> main fmt a cfg env w = (w3, Inl TypeError))
   \<and> (\<forall>l\<in>set (launched (fst (main fmt a cfg env w))).
         l \<in> set (launched w) \<or> to_stderr l = PIPE)"
  using main_steps(5) [of cfg env w w1 cachedir fmt w2 dest a w3 duration sec] main_launched
  by blast

theorem main_without_progress_never_encodes_witness:
  "example_run False 0 0 =
     ((world_of {''/c/t/first.mkv'', ''/h/out-0.ogv'', ''/c/t''} [encode_child 0])
        \<lparr>launched := [capture_launch]\<rparr>,
      Inl TypeError)
   \<and> to_stderr capture_launch = PIPE"
proof -
  let ?a = "\<lparr>args_progress = False, args_framerate = 25\<rparr>"
  have f: "args_framerate ?a = 25" and p: "\<not> args_progress ?a" by simp_all
  have "main str_format ?a example_config example_environ
          (world_of {} [capture_child 0, encode_child 0])
        = ((world_of {''/c/t/first.mkv'', ''/h/out-0.ogv'', ''/c/t''} [encode_child 0])
             \<lparr>launched := [capture_launch]\<rparr>, Inl TypeError)"
    using main_without_progress_never_encodes [of ?a example_config "[(''-c:v'', ''libtheora'')]"
            example_environ "world_of {} [capture_child 0, encode_child 0]"
            "world_of {''/c/t''} [capture_child 0, encode_child 0]" "''/c/t''" str_format
            "world_of {''/h/out-0.ogv'', ''/c/t''} [capture_child 0, encode_child 0]"
            "File ''/h/out-0.ogv''"
            "(world_of {''/c/t/first.mkv'', ''/h/out-0.ogv'', ''/c/t''} [encode_child 0])
               \<lparr>launched := [capture_launch]\<rparr>"
            "Some 2000000"]
          p example_fields(1) example_main_steps(1) [OF f] example_main_steps(2) [OF f]
          example_main_steps(4) [OF f]
    by blast
  then show ?thesis by (simp add: example_run_def capture_launch_def)
qed

end
